theory Spec2Isabelle
  imports Main "HOL-Library.Word"
begin

section \<open>JavaScript values and coercions\<close>

text \<open>
  The identifiers the API receives are typed \<open>number | string\<close> in the source, and a field
  of the payload may be missing. A number is an integer from \<open>-2^53\<close> to \<open>2^53 - 1\<close>, kept
  as a signed word of 54 bits: these are the integers that a double holds exactly and that
  \<open>String\<close> prints digit for digit. A string is a list of code units below 256.
  \<open>JUndefined\<close> is the value of a missing field.
\<close>

datatype jsval = JUndefined | JNum "54 word" | JStr string

text \<open>Truthiness, as \<open>!x\<close> tests it: \<open>undefined\<close>, \<open>0\<close> and the empty string are falsy.\<close>

fun truthy :: "jsval \<Rightarrow> bool" where
  "truthy JUndefined = False"
| "truthy (JNum n) = (n \<noteq> 0)"
| "truthy (JStr s) = (s \<noteq> [])"

text \<open>
  The white space that \<open>parseInt\<close> and \<open>ToNumber\<close> skip, among the code units below 256:
  tab, line feed, vertical tab, form feed, carriage return, space and no-break space.
\<close>

definition isWhiteSpace :: "char \<Rightarrow> bool" where
  "isWhiteSpace c =
     (c \<in> set [CHR 0x09, CHR 0x0A, CHR 0x0B, CHR 0x0C, CHR 0x0D, CHR 0x20, CHR 0xA0])"

definition isDigit :: "char \<Rightarrow> bool" where
  "isDigit c = (c \<in> set ''0123456789'')"

definition digitValue :: "char \<Rightarrow> int" where
  "digitValue c = int (length (takeWhile (\<lambda>x. x \<noteq> c) ''0123456789''))"

definition digitsValue :: "string \<Rightarrow> int" where
  "digitsValue ds = foldl (\<lambda>a c. 10 * a + digitValue c) 0 ds"

definition digitChar :: "int \<Rightarrow> char" where
  "digitChar n = ''0123456789'' ! nat (n mod 10)"

text \<open>The decimal digits of a number that is not negative.\<close>

function decimalDigits :: "int \<Rightarrow> string" where
  "decimalDigits n =
     (if n < 10 then [digitChar n] else decimalDigits (n div 10) @ [digitChar (n mod 10)])"
  by pat_completeness auto
termination
  by (relation "measure nat") auto

declare decimalDigits.simps [simp del]

definition numberToString :: "int \<Rightarrow> string" where
  "numberToString n = (if n < 0 then CHR ''-'' # decimalDigits (- n) else decimalDigits n)"

text \<open>\<open>String(x)\<close>, as a template literal and \<open>parseInt\<close> apply it to their argument.\<close>

fun toString :: "jsval \<Rightarrow> string" where
  "toString JUndefined = ''undefined''"
| "toString (JNum n) = numberToString (sint n)"
| "toString (JStr s) = s"

text \<open>
  The double nearest to a number that is not negative, ties to the even mantissa: a
  double has 53 bits of mantissa, so a number of more bits loses its low bits. What rounds
  to \<open>2^1024\<close> or more is \<open>Infinity\<close>, for which \<open>2^1024\<close> stands here.
\<close>

function bitLength :: "int \<Rightarrow> nat" where
  "bitLength n = (if n \<le> 0 then 0 else Suc (bitLength (n div 2)))"
  by pat_completeness auto
termination
  by (relation "measure nat") auto

declare bitLength.simps [simp del]

definition roundToDouble :: "int \<Rightarrow> int" where
  "roundToDouble n =
     (if n \<le> 2 ^ 53 then n
      else
        let k = bitLength n - 53;
            q = n div 2 ^ k;
            r = n mod 2 ^ k;
            half = 2 ^ (k - 1);
            q' = (if half < r \<or> (r = half \<and> odd q) then q + 1 else q)
        in if 2 ^ 1024 \<le> q' * 2 ^ k then 2 ^ 1024 else q' * 2 ^ k)"

text \<open>
  \<open>parseInt(s, 10)\<close>: leading white space is skipped, a sign is read, then the longest run
  of decimal digits, whose value is rounded to a double; no digit at all gives \<open>NaN\<close>,
  here \<open>None\<close>. The result is a whole number or an infinity, so an integer holds it.
\<close>

definition parseIntString :: "string \<Rightarrow> int option" where
  "parseIntString s =
     (let t = dropWhile isWhiteSpace s;
          neg = (case t of [] \<Rightarrow> False | c # r \<Rightarrow> c = CHR ''-'');
          body = (case t of [] \<Rightarrow> [] | c # r \<Rightarrow> if c = CHR ''-'' \<or> c = CHR ''+'' then r else t);
          ds = takeWhile isDigit body
      in if ds = [] then None
         else Some (if neg then - roundToDouble (digitsValue ds)
                    else roundToDouble (digitsValue ds)))"

definition parseInt :: "jsval \<Rightarrow> int option" where
  "parseInt v = parseIntString (toString v)"

text \<open>
  \<open>ToNumber\<close> of a string, which \<open>x <= 0\<close> applies to a string \<open>x\<close>. White space is
  trimmed at both ends. The empty string is zero. A literal with a radix prefix (\<open>0x\<close>,
  \<open>0o\<close>, \<open>0b\<close>, in either case) takes no sign. A decimal literal takes one sign, and is
  \<open>Infinity\<close>, or digits with an optional fraction and an optional exponent; at least one
  digit stands before the exponent. Everything else is \<open>NaN\<close>. What is kept of a decimal
  literal is its sign, the number \<open>m\<close> that its digits write without the point, and the
  power \<open>e\<close> of ten that \<open>m\<close> is to be multiplied by.
\<close>

datatype strNumber =
    StrNaN
  | StrInfinity bool
  | StrDecimal bool int int
  | StrInteger int

definition trim :: "string \<Rightarrow> string" where
  "trim s = rev (dropWhile isWhiteSpace (rev (dropWhile isWhiteSpace s)))"

definition radixDigitValue :: "char \<Rightarrow> int" where
  "radixDigitValue c =
     (if c \<in> set ''0123456789abcdef''
      then int (length (takeWhile (\<lambda>x. x \<noteq> c) ''0123456789abcdef''))
      else 10 + int (length (takeWhile (\<lambda>x. x \<noteq> c) ''ABCDEF'')))"

definition radixValue :: "int \<Rightarrow> string \<Rightarrow> int" where
  "radixValue b ds = foldl (\<lambda>a c. b * a + radixDigitValue c) 0 ds"

definition parseRadixLiteral :: "string \<Rightarrow> strNumber option" where
  "parseRadixLiteral t =
     (case t of
        z # x # ds \<Rightarrow>
          if z \<noteq> CHR ''0'' then None
          else if x = CHR ''x'' \<or> x = CHR ''X'' then
            Some (if ds \<noteq> [] \<and> list_all (\<lambda>c. c \<in> set ''0123456789abcdefABCDEF'') ds
                  then StrInteger (radixValue 16 ds) else StrNaN)
          else if x = CHR ''o'' \<or> x = CHR ''O'' then
            Some (if ds \<noteq> [] \<and> list_all (\<lambda>c. c \<in> set ''01234567'') ds
                  then StrInteger (radixValue 8 ds) else StrNaN)
          else if x = CHR ''b'' \<or> x = CHR ''B'' then
            Some (if ds \<noteq> [] \<and> list_all (\<lambda>c. c \<in> set ''01'') ds
                  then StrInteger (radixValue 2 ds) else StrNaN)
          else None
      | other \<Rightarrow> None)"

definition parseExponent :: "string \<Rightarrow> int option" where
  "parseExponent r =
     (case r of
        [] \<Rightarrow> Some 0
      | c # r1 \<Rightarrow>
          if c = CHR ''e'' \<or> c = CHR ''E'' then
            (let neg = (case r1 of [] \<Rightarrow> False | s # r2 \<Rightarrow> s = CHR ''-'');
                 ds = (case r1 of [] \<Rightarrow> []
                       | s # r2 \<Rightarrow> if s = CHR ''-'' \<or> s = CHR ''+'' then r2 else r1)
             in if ds \<noteq> [] \<and> list_all isDigit ds
                then Some (if neg then - digitsValue ds else digitsValue ds)
                else None)
          else None)"

definition parseUnsignedDecimal :: "bool \<Rightarrow> string \<Rightarrow> strNumber" where
  "parseUnsignedDecimal neg t =
     (if t = ''Infinity'' then StrInfinity neg
      else
        let ip = takeWhile isDigit t;
            r1 = dropWhile isDigit t;
            fp = (case r1 of [] \<Rightarrow> []
                  | c # r \<Rightarrow> if c = CHR ''.'' then takeWhile isDigit r else []);
            r2 = (case r1 of [] \<Rightarrow> []
                  | c # r \<Rightarrow> if c = CHR ''.'' then dropWhile isDigit r else r1)
        in if ip = [] \<and> fp = [] then StrNaN
           else case parseExponent r2 of
                  None \<Rightarrow> StrNaN
                | Some e \<Rightarrow> StrDecimal neg (digitsValue (ip @ fp)) (e - int (length fp)))"

definition stringToNumber :: "string \<Rightarrow> strNumber" where
  "stringToNumber s =
     (let t = trim s in
      if t = [] then StrDecimal False 0 0
      else case parseRadixLiteral t of
             Some n \<Rightarrow> n
           | None \<Rightarrow>
               (case t of
                  [] \<Rightarrow> StrNaN
                | c # r \<Rightarrow>
                    if c = CHR ''-'' then parseUnsignedDecimal True r
                    else if c = CHR ''+'' then parseUnsignedDecimal False r
                    else parseUnsignedDecimal False t))"

text \<open>
  Whether the double that a string denotes is at most zero. A negative literal is, zero
  included; a literal whose digits are all zero is; and so is a positive decimal
  \<open>m * 10^e\<close> that rounds to zero, which it does when it is at most \<open>2^-1075\<close>, half the
  least positive double. \<open>NaN\<close> is not at most zero.
\<close>

fun strNumberLeqZero :: "strNumber \<Rightarrow> bool" where
  "strNumberLeqZero StrNaN = False"
| "strNumberLeqZero (StrInfinity neg) = neg"
| "strNumberLeqZero (StrDecimal neg m e) =
     (neg \<or> m = 0 \<or> (e < 0 \<and> m * 2 ^ 1075 \<le> 10 ^ nat (- e)))"
| "strNumberLeqZero (StrInteger n) = (n = 0)"

text \<open>\<open>x <= 0\<close>: false when \<open>x\<close> converts to \<open>NaN\<close>, as \<open>undefined\<close> does.\<close>

fun lessEqZero :: "jsval \<Rightarrow> bool" where
  "lessEqZero JUndefined = False"
| "lessEqZero (JNum n) = (sint n \<le> 0)"
| "lessEqZero (JStr s) = strNumberLeqZero (stringToNumber s)"


section \<open>Data model\<close>

record Caller =
  uid :: jsval
  ip :: string

text \<open>
  The request payload. \<open>name\<close> and \<open>slug\<close> are \<open>None\<close> when the field is not a string.
\<close>

record Data =
  name :: "string option"
  ownerUid :: jsval
  system :: bool
  slug :: "string option"
  uid :: jsval

text \<open>
  The group record of \<open>../types/group\<close>, with the fields this module reads.
\<close>

record GroupDataObject =
  name :: string
  system :: bool
  private' :: bool
  disableJoinRequests :: bool
  disableLeave :: bool

text \<open>The object \<open>logGroupEvent\<close> hands to \<open>events.log\<close>.\<close>

record event =
  type' :: string
  uid :: jsval
  ip :: string
  groupName' :: string
  targetUid :: "jsval option"

text \<open>The object \<open>leave\<close> hands to \<open>notifications.create\<close>.\<close>

record notification =
  type' :: string
  bodyShort :: string
  nid :: string
  path' :: string
  from' :: jsval

text \<open>
  The errors the module throws itself, \<open>TypeError\<close> for a property read on \<open>null\<close>, and
  the failure of a collaborator, which keeps its own message.
\<close>

datatype error =
    InvalidData
  | InvalidGroupName
  | InvalidUid
  | NoGroup
  | NoPrivileges
  | NotAllowed
  | GroupJoinDisabled
  | GroupLeaveDisabled
  | CantRemoveSelfAsAdmin
  | TypeError
  | CollaboratorError string

text \<open>
  Every call that writes: the mutations of the group directory, and what is handed to the
  audit and notification sinks. A run records them in order.
\<close>

datatype call =
    GroupsCreate Data
  | GroupsUpdate string Data
  | GroupsDestroy string
  | GroupsJoin string jsval
  | GroupsRequestMembership string jsval
  | GroupsLeave string jsval
  | OwnershipGrant jsval string
  | OwnershipRescind jsval string
  | EventsLog event
  | NotificationsCreate notification
  | NotificationsPush notification "jsval list"
  | GroupsLogGroupEvent Caller string string

fun isMutation :: "call \<Rightarrow> bool" where
  "isMutation (EventsLog e) = False"
| "isMutation (NotificationsCreate n) = False"
| "isMutation (NotificationsPush n us) = False"
| "isMutation (GroupsLogGroupEvent c e g) = False"
| "isMutation c = True"


section \<open>Collaborators\<close>

text \<open>
  The modules this file imports (\<open>privileges\<close>, \<open>user\<close>, \<open>groups\<close>, \<open>meta\<close>, \<open>events\<close>,
  \<open>notifications\<close>, \<open>slugify\<close>, \<open>validator\<close>) are parameters. \<open>'w\<close> is the state of the stores
  they read. A query is a function of the stores and answers with a value of the type the
  source casts it to. A mutation of the directory transforms the stores; it is atomic and
  completes. The audit sink (\<open>events.log\<close>) and the notification sink
  (\<open>notifications.create\<close>, \<open>notifications.push\<close>) keep their own books: they leave the
  stores as they are, and they accept what they are handed or refuse it with a message.
  \<open>systemGroups\<close>, \<open>ephemeralGroups\<close>, \<open>isPrivilegeGroup\<close>, \<open>slugify\<close> and
  \<open>validator.escape\<close> do not depend on the stores. \<open>getUserFields\<close> answers with the
  \<open>displayname\<close> that leave reads from it. \<open>groups.logGroupEvent\<close> is the audit function
  that \<open>src/api/groups.ts\<close> imports from the \<open>groups\<close> module; like the sinks, it accepts
  what it is handed or refuses it.
\<close>

record 'w env =
  systemGroups :: "string list"
  ephemeralGroups :: "string list"
  groups_isPrivilegeGroup :: "string \<Rightarrow> bool"
  slugify :: "string \<Rightarrow> string"
  validator_escape :: "string \<Rightarrow> string"
  privileges_admin_can :: "'w \<Rightarrow> string \<Rightarrow> jsval \<Rightarrow> bool"
  privileges_global_can :: "'w \<Rightarrow> string \<Rightarrow> jsval \<Rightarrow> bool"
  user_isGlobalModerator :: "'w \<Rightarrow> jsval \<Rightarrow> bool"
  user_isAdministrator :: "'w \<Rightarrow> jsval \<Rightarrow> bool"
  user_exists :: "'w \<Rightarrow> jsval \<Rightarrow> bool"
  user_getUserFields :: "'w \<Rightarrow> jsval \<Rightarrow> string list \<Rightarrow> string"
  meta_config_allowPrivateGroups :: "'w \<Rightarrow> bool"
  groups_getGroupNameByGroupSlug :: "'w \<Rightarrow> string option \<Rightarrow> string option"
  groups_getGroupData :: "'w \<Rightarrow> string \<Rightarrow> GroupDataObject"
  groups_ownership_isOwner :: "'w \<Rightarrow> jsval \<Rightarrow> string \<Rightarrow> bool"
  groups_isMember :: "'w \<Rightarrow> jsval \<Rightarrow> string \<Rightarrow> bool"
  groups_getOwners :: "'w \<Rightarrow> string \<Rightarrow> jsval list"
  groups_create :: "Data \<Rightarrow> 'w \<Rightarrow> GroupDataObject \<times> 'w"
  groups_update :: "string \<Rightarrow> Data \<Rightarrow> 'w \<Rightarrow> 'w"
  groups_destroy :: "string \<Rightarrow> 'w \<Rightarrow> 'w"
  groups_join :: "string \<Rightarrow> jsval \<Rightarrow> 'w \<Rightarrow> 'w"
  groups_requestMembership :: "string \<Rightarrow> jsval \<Rightarrow> 'w \<Rightarrow> 'w"
  groups_leave :: "string \<Rightarrow> jsval \<Rightarrow> 'w \<Rightarrow> 'w"
  groups_ownership_grant :: "jsval \<Rightarrow> string \<Rightarrow> 'w \<Rightarrow> 'w"
  groups_ownership_rescind :: "jsval \<Rightarrow> string \<Rightarrow> 'w \<Rightarrow> 'w"
  events_log :: "'w \<Rightarrow> event \<Rightarrow> string option"
  notifications_create :: "'w \<Rightarrow> notification \<Rightarrow> string + notification"
  notifications_push :: "'w \<Rightarrow> notification \<Rightarrow> jsval list \<Rightarrow> string option"
  groups_logGroupEvent :: "'w \<Rightarrow> Caller \<Rightarrow> string \<Rightarrow> string \<Rightarrow> string option"


section \<open>Sequencing awaited calls\<close>

type_synonym 'w st = "'w \<times> call list"

type_synonym ('w, 'a) io = "'w st \<Rightarrow> (error + 'a) \<times> 'w st"

definition done' :: "'a \<Rightarrow> ('w, 'a) io" where
  "done' a = (\<lambda>s. (Inr a, s))"

definition throw :: "error \<Rightarrow> ('w, 'a) io" where
  "throw e = (\<lambda>s. (Inl e, s))"

definition await :: "('w, 'a) io \<Rightarrow> ('a \<Rightarrow> ('w, 'b) io) \<Rightarrow> ('w, 'b) io" where
  "await m k = (\<lambda>s. case m s of (Inl e, s') \<Rightarrow> (Inl e, s') | (Inr a, s') \<Rightarrow> k a s')"

text \<open>A query reads the stores.\<close>

definition query :: "('w \<Rightarrow> 'a) \<Rightarrow> ('w, 'a) io" where
  "query f = (\<lambda>(w, tr). (Inr (f w), (w, tr)))"

text \<open>A mutation of the directory: it transforms the stores and is recorded.\<close>

definition mutate :: "call \<Rightarrow> ('w \<Rightarrow> 'a \<times> 'w) \<Rightarrow> ('w, 'a) io" where
  "mutate c f = (\<lambda>(w, tr). case f w of (a, w') \<Rightarrow> (Inr a, (w', tr @ [c])))"

text \<open>
  A call to a sink: it is recorded, and a refusal is thrown to whoever awaits it.
\<close>

definition thrown :: "string + 'a \<Rightarrow> error + 'a" where
  "thrown r = (case r of Inl msg \<Rightarrow> Inl (CollaboratorError msg) | Inr a \<Rightarrow> Inr a)"

definition emit :: "call \<Rightarrow> ('w \<Rightarrow> string + 'a) \<Rightarrow> ('w, 'a) io" where
  "emit c f = (\<lambda>(w, tr). (thrown (f w), (w, tr @ [c])))"

definition refusal :: "string option \<Rightarrow> string + unit" where
  "refusal r = (case r of None \<Rightarrow> Inr () | Some msg \<Rightarrow> Inl msg)"

text \<open>
  A call that is not awaited: the call is made and recorded, and its promise is dropped, so
  what it answers, a refusal included, never reaches the caller.
\<close>

definition unawaited :: "('w, 'a) io \<Rightarrow> ('w, unit) io" where
  "unawaited m = (\<lambda>s. (Inr (), snd (m s)))"


section \<open>The API: \<open>src/api/groups\<close>\<close>

text \<open>
  The functions below follow the TypeScript module with its seven operations, of which
  \<open>src/api/groups.js\<close> is the compiled form. Each \<open>await\<close> of the source is an \<open>await\<close> here, each \<open>throw\<close> a \<open>throw\<close>.
  A payload that is \<open>null\<close> is \<open>None\<close>; where the source reads a field of the payload
  without testing it first, \<open>None\<close> is a \<open>TypeError\<close>.
\<close>

definition isOwner :: "'w env \<Rightarrow> Caller \<Rightarrow> string option \<Rightarrow> ('w, unit) io" where
  "isOwner E caller groupName =
     (case groupName of
        None \<Rightarrow> throw InvalidGroupName
      | Some g \<Rightarrow>
          await (query (\<lambda>w. privileges_admin_can E w ''admin:groups'' (Caller.uid caller)))
            (\<lambda>hasAdminPrivilege.
          await (query (\<lambda>w. user_isGlobalModerator E w (Caller.uid caller)))
            (\<lambda>isGlobalModerator.
          await (query (\<lambda>w. groups_ownership_isOwner E w (Caller.uid caller) g))
            (\<lambda>isOwner'.
          await (query (\<lambda>w. groups_getGroupData E w g))
            (\<lambda>group.
          let check = isOwner' \<or> hasAdminPrivilege
                \<or> (isGlobalModerator \<and> \<not> GroupDataObject.system group)
          in if \<not> check then throw NoPrivileges else done' ())))))"

definition groupEvent :: "Caller \<Rightarrow> string \<Rightarrow> string \<Rightarrow> jsval option \<Rightarrow> event" where
  "groupEvent caller ev groupName target =
     \<lparr> event.type' = ev, event.uid = Caller.uid caller, event.ip = Caller.ip caller,
       groupName' = groupName, targetUid = target \<rparr>"

definition logGroupEvent ::
  "'w env \<Rightarrow> Caller \<Rightarrow> string \<Rightarrow> string \<Rightarrow> jsval option \<Rightarrow> ('w, unit) io" where
  "logGroupEvent E caller ev groupName target =
     emit (EventsLog (groupEvent caller ev groupName target))
       (\<lambda>w. refusal (events_log E w (groupEvent caller ev groupName target)))"

text \<open>
  \<open>parseInt(a, 10) === parseInt(b, 10)\<close>: \<open>NaN\<close> is not equal to itself.
\<close>

definition sameNumber :: "int option \<Rightarrow> int option \<Rightarrow> bool" where
  "sameNumber a b = (a \<noteq> None \<and> a = b)"

definition create :: "'w env \<Rightarrow> Caller \<Rightarrow> Data option \<Rightarrow> ('w, GroupDataObject) io" where
  "create E caller data =
     (if \<not> truthy (Caller.uid caller) then throw NoPrivileges
      else case data of
        None \<Rightarrow> throw InvalidData
      | Some d \<Rightarrow>
         (case Data.name d of
            None \<Rightarrow> throw InvalidGroupName
          | Some n \<Rightarrow>
              if groups_isPrivilegeGroup E n then throw InvalidGroupName
              else
                await (query (\<lambda>w. privileges_global_can E w ''group:create'' (Caller.uid caller)))
                  (\<lambda>canCreate.
                if \<not> canCreate then throw NoPrivileges
                else
                  let d1 = d\<lparr> ownerUid := Caller.uid caller \<rparr>;
                      d2 = d1\<lparr> Data.system := False \<rparr>
                  in
                  await (mutate (GroupsCreate d2) (groups_create E d2))
                    (\<lambda>groupData.
                  await (logGroupEvent E caller ''group-create'' n None)
                    (\<lambda>u. done' groupData)))))"

text \<open>
  \<open>src/api/groups.ts\<close> holds a second \<open>create\<close>, its default export, here \<open>create'\<close>. It
  makes the same tests, forces the same fields and calls \<open>groups.create\<close> alike; it
  differs in its last step, where it calls the \<open>logGroupEvent\<close> that it imports from the
  \<open>groups\<close> module, with the caller, the tag and the group's name, and does not await it.
\<close>

definition create' :: "'w env \<Rightarrow> Caller \<Rightarrow> Data option \<Rightarrow> ('w, GroupDataObject) io" where
  "create' E caller data =
     (if \<not> truthy (Caller.uid caller) then throw NoPrivileges
      else case data of
        None \<Rightarrow> throw InvalidData
      | Some d \<Rightarrow>
         (case Data.name d of
            None \<Rightarrow> throw InvalidGroupName
          | Some n \<Rightarrow>
              if groups_isPrivilegeGroup E n then throw InvalidGroupName
              else
                await (query (\<lambda>w. privileges_global_can E w ''group:create'' (Caller.uid caller)))
                  (\<lambda>canCreate.
                if \<not> canCreate then throw NoPrivileges
                else
                  let d1 = d\<lparr> ownerUid := Caller.uid caller \<rparr>;
                      d2 = d1\<lparr> Data.system := False \<rparr>
                  in
                  await (mutate (GroupsCreate d2) (groups_create E d2))
                    (\<lambda>groupData.
                  await (unawaited
                           (emit (GroupsLogGroupEvent caller ''group-create'' n)
                              (\<lambda>w. refusal (groups_logGroupEvent E w caller ''group-create'' n))))
                    (\<lambda>u. done' groupData)))))"

text \<open>
  In \<open>update\<close>, \<open>delete\<close>, \<open>grant\<close> and \<open>rescind\<close> the name read from the slug is used as a
  string once \<open>isOwner\<close> has returned; \<open>isOwner\<close> throws on a name that is not a string, so
  the \<open>None\<close> branch after it is never taken (lemma \<open>isOwner_None\<close> below).
\<close>

definition update :: "'w env \<Rightarrow> Caller \<Rightarrow> Data option \<Rightarrow> ('w, GroupDataObject) io" where
  "update E caller data =
     (case data of
        None \<Rightarrow> throw InvalidData
      | Some d \<Rightarrow>
          await (query (\<lambda>w. groups_getGroupNameByGroupSlug E w (Data.slug d)))
            (\<lambda>groupName.
          await (isOwner E caller groupName)
            (\<lambda>u.
          case groupName of
            None \<Rightarrow> throw InvalidGroupName
          | Some g \<Rightarrow>
              let d1 = d\<lparr> slug := None \<rparr> in
              await (mutate (GroupsUpdate g d1) (\<lambda>w. ((), groups_update E g d1 w)))
                (\<lambda>u.
              await (query (\<lambda>w. groups_getGroupData E w
                       (case Data.name d1 of
                          None \<Rightarrow> g
                        | Some n \<Rightarrow> if n \<noteq> [] then n else g)))
                (\<lambda>result. done' result)))))"

definition delete' :: "'w env \<Rightarrow> Caller \<Rightarrow> Data option \<Rightarrow> ('w, unit) io" where
  "delete' E caller data =
     (case data of
        None \<Rightarrow> throw TypeError
      | Some d \<Rightarrow>
          await (query (\<lambda>w. groups_getGroupNameByGroupSlug E w (Data.slug d)))
            (\<lambda>groupName.
          await (isOwner E caller groupName)
            (\<lambda>u.
          case groupName of
            None \<Rightarrow> throw InvalidGroupName
          | Some g \<Rightarrow>
              if g \<in> set (systemGroups E) \<or> g \<in> set (ephemeralGroups E) then throw NotAllowed
              else
                await (mutate (GroupsDestroy g) (\<lambda>w. ((), groups_destroy E g w)))
                  (\<lambda>u. logGroupEvent E caller ''group-delete'' g None))))"

definition join :: "'w env \<Rightarrow> Caller \<Rightarrow> Data option \<Rightarrow> ('w, unit) io" where
  "join E caller data =
     (case data of
        None \<Rightarrow> throw InvalidData
      | Some d \<Rightarrow>
          if lessEqZero (Caller.uid caller) \<or> \<not> truthy (Data.uid d) then throw InvalidUid
          else
            await (query (\<lambda>w. groups_getGroupNameByGroupSlug E w (Data.slug d)))
              (\<lambda>groupName.
            case groupName of
              None \<Rightarrow> throw NoGroup
            | Some g \<Rightarrow>
                if g = [] then throw NoGroup
                else
                  await (query (\<lambda>w. user_isAdministrator E w (Caller.uid caller)))
                    (\<lambda>isCallerAdmin.
                  if \<not> isCallerAdmin \<and> (g \<in> set (systemGroups E) \<or> groups_isPrivilegeGroup E g)
                  then throw NotAllowed
                  else
                    await (query (\<lambda>w. groups_getGroupData E w g))
                      (\<lambda>groupData.
                    await (query (\<lambda>w. groups_ownership_isOwner E w (Caller.uid caller) g))
                      (\<lambda>isCallerOwner.
                    await (query (\<lambda>w. user_exists E w (Data.uid d)))
                      (\<lambda>userExists.
                    if \<not> userExists then throw InvalidUid
                    else
                      let isSelf = sameNumber (parseInt (Caller.uid caller)) (parseInt (Data.uid d)) in
                      await (query (\<lambda>w. meta_config_allowPrivateGroups E w))
                        (\<lambda>allowPrivateGroups.
                      if \<not> allowPrivateGroups \<and> isSelf then
                        await (mutate (GroupsJoin g (Data.uid d))
                                 (\<lambda>w. ((), groups_join E g (Data.uid d) w)))
                          (\<lambda>u. logGroupEvent E caller ''group-join'' g (Some (Data.uid d)))
                      else if \<not> isCallerAdmin \<and> isSelf \<and> private' groupData
                              \<and> disableJoinRequests groupData
                      then throw GroupJoinDisabled
                      else if (\<not> private' groupData \<and> isSelf) \<or> isCallerAdmin \<or> isCallerOwner then
                        await (mutate (GroupsJoin g (Data.uid d))
                                 (\<lambda>w. ((), groups_join E g (Data.uid d) w)))
                          (\<lambda>u. logGroupEvent E caller ''group-join'' g (Some (Data.uid d)))
                      else if isSelf then
                        await (mutate (GroupsRequestMembership g (Caller.uid caller))
                                 (\<lambda>w. ((), groups_requestMembership E g (Caller.uid caller) w)))
                          (\<lambda>u. logGroupEvent E caller ''group-request-membership'' g
                                  (Some (Data.uid d)))
                      else done' ())))))))"

definition leaveNotification :: "'w env \<Rightarrow> string \<Rightarrow> string \<Rightarrow> jsval \<Rightarrow> notification" where
  "leaveNotification E displayname groupName target =
     (let slugified = slugify E groupName;
          path = ''/groups/'' @ slugified
      in \<lparr> notification.type' = ''group-leave'',
           bodyShort = ''[[groups:membership.leave.notification_title, ''
                         @ displayname @ '', '' @ groupName @ '']]'',
           nid = ''group:'' @ validator_escape E groupName @ '':uid:''
                   @ toString target @ '':group-leave'',
           path' = path,
           from' = target \<rparr>)"

text \<open>
  In \<open>leave\<close> the test \<open>typeof groupName !== 'string'\<close> follows the test \<open>!groupName\<close>;
  a name that has passed the latter is a non-empty string here, so the former never fires.
\<close>

definition leave :: "'w env \<Rightarrow> Caller \<Rightarrow> Data option \<Rightarrow> ('w, unit) io" where
  "leave E caller data =
     (case data of
        None \<Rightarrow> throw InvalidData
      | Some d \<Rightarrow>
          if lessEqZero (Caller.uid caller) then throw InvalidUid
          else
            let isSelf = sameNumber (parseInt (Caller.uid caller)) (parseInt (Data.uid d)) in
            await (query (\<lambda>w. groups_getGroupNameByGroupSlug E w (Data.slug d)))
              (\<lambda>groupName.
            case groupName of
              None \<Rightarrow> throw NoGroup
            | Some g \<Rightarrow>
                if g = [] then throw NoGroup
                else if g = ''administrators'' \<and> isSelf then throw CantRemoveSelfAsAdmin
                else
                  await (query (\<lambda>w. groups_getGroupData E w g))
                    (\<lambda>groupData.
                  await (query (\<lambda>w. user_isAdministrator E w (Caller.uid caller)))
                    (\<lambda>isCallerAdmin.
                  await (query (\<lambda>w. groups_ownership_isOwner E w (Caller.uid caller) g))
                    (\<lambda>isCallerOwner.
                  await (query (\<lambda>w. user_exists E w (Data.uid d)))
                    (\<lambda>userExists.
                  await (query (\<lambda>w. groups_isMember E w (Data.uid d) g))
                    (\<lambda>isMember.
                  if \<not> userExists then throw InvalidUid
                  else if \<not> isMember then done' ()
                  else if disableLeave groupData \<and> isSelf then throw GroupLeaveDisabled
                  else if isSelf \<or> isCallerAdmin \<or> isCallerOwner then
                    await (mutate (GroupsLeave g (Data.uid d))
                             (\<lambda>w. ((), groups_leave E g (Data.uid d) w)))
                      (\<lambda>u.
                    await (query (\<lambda>w. user_getUserFields E w (Data.uid d) [''username'']))
                      (\<lambda>displayname.
                    let n = leaveNotification E displayname g (Data.uid d) in
                    await (emit (NotificationsCreate n) (\<lambda>w. notifications_create E w n))
                      (\<lambda>notification.
                    await (query (\<lambda>w. groups_getOwners E w g))
                      (\<lambda>uids.
                    await (emit (NotificationsPush notification uids)
                             (\<lambda>w. refusal (notifications_push E w notification uids)))
                      (\<lambda>u. logGroupEvent E caller ''group-leave'' g (Some (Data.uid d)))))))
                  else throw NoPrivileges)))))))"

definition grant :: "'w env \<Rightarrow> Caller \<Rightarrow> Data option \<Rightarrow> ('w, unit) io" where
  "grant E caller data =
     (case data of
        None \<Rightarrow> throw TypeError
      | Some d \<Rightarrow>
          await (query (\<lambda>w. groups_getGroupNameByGroupSlug E w (Data.slug d)))
            (\<lambda>groupName.
          await (isOwner E caller groupName)
            (\<lambda>u.
          case groupName of
            None \<Rightarrow> throw InvalidGroupName
          | Some g \<Rightarrow>
              await (mutate (OwnershipGrant (Data.uid d) g)
                       (\<lambda>w. ((), groups_ownership_grant E (Data.uid d) g w)))
                (\<lambda>u. logGroupEvent E caller ''group-owner-grant'' g (Some (Data.uid d))))))"

definition rescind :: "'w env \<Rightarrow> Caller \<Rightarrow> Data option \<Rightarrow> ('w, unit) io" where
  "rescind E caller data =
     (case data of
        None \<Rightarrow> throw TypeError
      | Some d \<Rightarrow>
          await (query (\<lambda>w. groups_getGroupNameByGroupSlug E w (Data.slug d)))
            (\<lambda>groupName.
          await (isOwner E caller groupName)
            (\<lambda>u.
          case groupName of
            None \<Rightarrow> throw InvalidGroupName
          | Some g \<Rightarrow>
              await (mutate (OwnershipRescind (Data.uid d) g)
                       (\<lambda>w. ((), groups_ownership_rescind E (Data.uid d) g w)))
                (\<lambda>u. logGroupEvent E caller ''group-owner-rescind'' g (Some (Data.uid d))))))"


section \<open>The statements of the specification\<close>

text \<open>
  The access rule of the \<open>isOwner\<close> gate, in the words of the specification: the actor is
  a recorded owner, or holds the admin-groups capability, or is a global moderator and the
  group is not a system group.
\<close>

definition accessGranted :: "'w env \<Rightarrow> 'w \<Rightarrow> Caller \<Rightarrow> string \<Rightarrow> bool" where
  "accessGranted E w caller g =
     (groups_ownership_isOwner E w (Caller.uid caller) g
      \<or> privileges_admin_can E w ''admin:groups'' (Caller.uid caller)
      \<or> (user_isGlobalModerator E w (Caller.uid caller)
          \<and> \<not> GroupDataObject.system (groups_getGroupData E w g)))"

text \<open>What the caller gets back from an audit record handed to the sink in stores \<open>w\<close>.\<close>

definition audited :: "'w env \<Rightarrow> 'w \<Rightarrow> event \<Rightarrow> error + unit" where
  "audited E w entry = thrown (refusal (events_log E w entry))"

text \<open>
  The decision table of join as the specification lists it, rule 1 to rule 5, first match
  wins.
\<close>

datatype joinOutcome = DirectJoin | PendingRequest | NoOp | Denial error

definition joinDecisionTable ::
  "bool \<Rightarrow> bool \<Rightarrow> bool \<Rightarrow> bool \<Rightarrow> bool \<Rightarrow> bool \<Rightarrow> joinOutcome" where
  "joinDecisionTable isSelf isPlatformAdmin isGroupOwner isPrivate joinRequestsDisabled
       privateGroupsAllowed =
     (if \<not> privateGroupsAllowed \<and> isSelf then DirectJoin
      else if \<not> isPlatformAdmin \<and> isSelf \<and> isPrivate \<and> joinRequestsDisabled
        then Denial GroupJoinDisabled
      else if (\<not> isPrivate \<and> isSelf) \<or> isPlatformAdmin \<or> isGroupOwner then DirectJoin
      else if isSelf then PendingRequest
      else NoOp)"

text \<open>
  The validation steps of join: the caller's identifier is positive and the target's is
  present, the slug resolves to a name \<open>g\<close>, a system or privilege group is joined by a
  platform administrator only, and the target exists.
\<close>

definition joinValidated :: "'w env \<Rightarrow> 'w \<Rightarrow> Caller \<Rightarrow> Data \<Rightarrow> string \<Rightarrow> bool" where
  "joinValidated E w caller d g =
     (\<not> lessEqZero (Caller.uid caller) \<and> truthy (Data.uid d)
      \<and> groups_getGroupNameByGroupSlug E w (Data.slug d) = Some g \<and> g \<noteq> []
      \<and> (user_isAdministrator E w (Caller.uid caller)
          \<or> (g \<notin> set (systemGroups E) \<and> \<not> groups_isPrivilegeGroup E g))
      \<and> user_exists E w (Data.uid d))"

text \<open>
  A direct join: the target is made a member, then an audit record is handed to the audit
  sink, whose answer is the result.
\<close>

definition directJoin ::
  "'w env \<Rightarrow> Data \<Rightarrow> string \<Rightarrow> event \<Rightarrow> 'w st \<Rightarrow> (error + unit) \<times> 'w st" where
  "directJoin E d g entry s =
     (audited E (groups_join E g (Data.uid d) (fst s)) entry,
      (groups_join E g (Data.uid d) (fst s),
       snd s @ [GroupsJoin g (Data.uid d), EventsLog entry]))"

text \<open>
  A pending membership request: the request is recorded for the caller, then an audit
  record is handed to the audit sink, whose answer is the result.
\<close>

definition pendingRequest ::
  "'w env \<Rightarrow> Caller \<Rightarrow> string \<Rightarrow> event \<Rightarrow> 'w st \<Rightarrow> (error + unit) \<times> 'w st" where
  "pendingRequest E caller g entry s =
     (audited E (groups_requestMembership E g (Caller.uid caller) (fst s)) entry,
      (groups_requestMembership E g (Caller.uid caller) (fst s),
       snd s @ [GroupsRequestMembership g (Caller.uid caller), EventsLog entry]))"

text \<open>
  What a run of join shows from outside: which of the four outcomes took place, read from
  the result and from the calls the run added.
\<close>

definition joinObserved :: "'w st \<Rightarrow> (error + unit) \<times> 'w st \<Rightarrow> joinOutcome option" where
  "joinObserved s r =
     (case drop (length (snd s)) (snd (snd r)) of
        [] \<Rightarrow> (case fst r of Inr u \<Rightarrow> Some NoOp | Inl e \<Rightarrow> Some (Denial e))
      | [GroupsJoin g u, EventsLog e] \<Rightarrow>
          if event.type' e = ''group-join'' then Some DirectJoin else None
      | [GroupsRequestMembership g u, EventsLog e] \<Rightarrow>
          if event.type' e = ''group-request-membership'' then Some PendingRequest else None
      | other \<Rightarrow> None)"

text \<open>
  The guards of leave that come before the membership test: the caller's identifier is
  positive, the slug resolves to a name \<open>g\<close>, and the call is not a leave of
  \<open>administrators\<close> by the caller on themself.
\<close>

definition leaveGuardsPass :: "'w env \<Rightarrow> 'w \<Rightarrow> Caller \<Rightarrow> Data \<Rightarrow> string \<Rightarrow> bool" where
  "leaveGuardsPass E w caller d g =
     (\<not> lessEqZero (Caller.uid caller)
      \<and> groups_getGroupNameByGroupSlug E w (Data.slug d) = Some g \<and> g \<noteq> []
      \<and> (g \<noteq> ''administrators''
          \<or> \<not> sameNumber (parseInt (Caller.uid caller)) (parseInt (Data.uid d))))"


text \<open>
  Observations on a run from state \<open>s\<close> with result \<open>r\<close>: the errors this module throws
  itself, the calls the run added, and whether it performed exactly one mutation.
\<close>

fun raisedHere :: "error \<Rightarrow> bool" where
  "raisedHere (CollaboratorError m) = False"
| "raisedHere e = True"

definition failedTyped :: "(error + 'a) \<times> 'w st \<Rightarrow> bool" where
  "failedTyped r = (case fst r of Inl e \<Rightarrow> raisedHere e | Inr a \<Rightarrow> False)"

definition succeeded :: "(error + 'a) \<times> 'w st \<Rightarrow> bool" where
  "succeeded r = (case fst r of Inl e \<Rightarrow> False | Inr a \<Rightarrow> True)"

definition untouched :: "'w st \<Rightarrow> (error + 'a) \<times> 'w st \<Rightarrow> bool" where
  "untouched s r = (snd r = s)"

definition newCalls :: "'w st \<Rightarrow> (error + 'a) \<times> 'w st \<Rightarrow> call list" where
  "newCalls s r = drop (length (snd s)) (snd (snd r))"

definition mutatedOnce :: "'w st \<Rightarrow> (error + 'a) \<times> 'w st \<Rightarrow> bool" where
  "mutatedOnce s r =
     (take (length (snd s)) (snd (snd r)) = snd s
      \<and> length (filter isMutation (newCalls s r)) = 1)"

text \<open>
  The silent no-ops. Join is one under rule 5 of its table, its validation passed. Leave
  is one when its guards have passed and the target exists and is no member.
\<close>

definition joinIsNoOp :: "'w env \<Rightarrow> 'w \<Rightarrow> Caller \<Rightarrow> Data option \<Rightarrow> bool" where
  "joinIsNoOp E w caller data =
     (case data of
        None \<Rightarrow> False
      | Some d \<Rightarrow>
         (case groups_getGroupNameByGroupSlug E w (Data.slug d) of
            None \<Rightarrow> False
          | Some g \<Rightarrow>
              joinValidated E w caller d g
              \<and> joinDecisionTable
                    (sameNumber (parseInt (Caller.uid caller)) (parseInt (Data.uid d)))
                    (user_isAdministrator E w (Caller.uid caller))
                    (groups_ownership_isOwner E w (Caller.uid caller) g)
                    (private' (groups_getGroupData E w g))
                    (disableJoinRequests (groups_getGroupData E w g))
                    (meta_config_allowPrivateGroups E w) = NoOp))"

definition leaveIsNoOp :: "'w env \<Rightarrow> 'w \<Rightarrow> Caller \<Rightarrow> Data option \<Rightarrow> bool" where
  "leaveIsNoOp E w caller data =
     (case data of
        None \<Rightarrow> False
      | Some d \<Rightarrow>
         (case groups_getGroupNameByGroupSlug E w (Data.slug d) of
            None \<Rightarrow> False
          | Some g \<Rightarrow>
              leaveGuardsPass E w caller d g \<and> user_exists E w (Data.uid d)
              \<and> \<not> groups_isMember E w (Data.uid d) g))"

text \<open>
  Fail-fast with a single mutation: a typed failure leaves the state untouched; a success
  has performed exactly one mutation, unless the call is a silent no-op (\<open>noop\<close>); a
  silent no-op succeeds and leaves the state untouched.
\<close>

definition failFastOnce :: "bool \<Rightarrow> 'w st \<Rightarrow> (error + 'a) \<times> 'w st \<Rightarrow> bool" where
  "failFastOnce noop s r =
     ((failedTyped r \<longrightarrow> untouched s r)
      \<and> (succeeded r \<and> \<not> noop \<longrightarrow> mutatedOnce s r)
      \<and> (noop \<longrightarrow> succeeded r \<and> untouched s r))"

text \<open>The answer of a sink to a call, in stores \<open>w\<close>: its refusal, if it refuses.\<close>

fun sinkRefusal :: "'w env \<Rightarrow> 'w \<Rightarrow> call \<Rightarrow> string option" where
  "sinkRefusal E w (EventsLog e) = events_log E w e"
| "sinkRefusal E w (NotificationsCreate n) =
     (case notifications_create E w n of Inl m \<Rightarrow> Some m | Inr n' \<Rightarrow> None)"
| "sinkRefusal E w (NotificationsPush n us) = notifications_push E w n us"
| "sinkRefusal E w (GroupsLogGroupEvent c e g) = groups_logGroupEvent E w c e g"
| "sinkRefusal E w c = None"

definition lastRefusal :: "'w env \<Rightarrow> 'w st \<Rightarrow> (error + 'a) \<times> 'w st \<Rightarrow> string option" where
  "lastRefusal E s r =
     (if newCalls s r = [] then None
      else sinkRefusal E (fst (snd r)) (last (newCalls s r)))"

text \<open>
  A sink's failure is escalated: the run fails with a collaborator's message exactly when
  the last call it made is a sink call that was refused with that message, and then the
  one mutation it performed stays performed.
\<close>

definition sinkFailureEscalates :: "'w env \<Rightarrow> 'w st \<Rightarrow> (error + 'a) \<times> 'w st \<Rightarrow> bool" where
  "sinkFailureEscalates E s r =
     (\<forall>m. (fst r = Inl (CollaboratorError m)) = (lastRefusal E s r = Some m)
         \<and> (lastRefusal E s r = Some m \<longrightarrow> mutatedOnce s r))"

text \<open>
  What leave does once the membership has been removed: the notification is created and
  pushed to the owners, then an audit record is handed to the audit sink; the first
  refusal ends the run.
\<close>

definition afterLeave ::
  "'w env \<Rightarrow> Data \<Rightarrow> string \<Rightarrow> event \<Rightarrow> 'w st \<Rightarrow> (error + unit) \<times> 'w st" where
  "afterLeave E d g entry s =
     (let w1 = groups_leave E g (Data.uid d) (fst s);
          n = leaveNotification E (user_getUserFields E w1 (Data.uid d) [''username'']) g
                (Data.uid d);
          uids = groups_getOwners E w1 g
      in case notifications_create E w1 n of
           Inl m \<Rightarrow>
             (Inl (CollaboratorError m),
              (w1, snd s @ [GroupsLeave g (Data.uid d), NotificationsCreate n]))
         | Inr n' \<Rightarrow>
             (case notifications_push E w1 n' uids of
                Some m \<Rightarrow>
                  (Inl (CollaboratorError m),
                   (w1, snd s @ [GroupsLeave g (Data.uid d), NotificationsCreate n,
                                 NotificationsPush n' uids]))
              | None \<Rightarrow>
                  (audited E w1 entry,
                   (w1, snd s @ [GroupsLeave g (Data.uid d), NotificationsCreate n,
                                 NotificationsPush n' uids, EventsLog entry]))))"

text \<open>
  What grant and rescind do once the gate has passed: the ownership is changed, then the
  record is handed to the audit sink.
\<close>

definition afterGrant ::
  "'w env \<Rightarrow> Caller \<Rightarrow> Data \<Rightarrow> string \<Rightarrow> 'w st \<Rightarrow> (error + unit) \<times> 'w st" where
  "afterGrant E caller d g s =
     (audited E (groups_ownership_grant E (Data.uid d) g (fst s))
        (groupEvent caller ''group-owner-grant'' g (Some (Data.uid d))),
      (groups_ownership_grant E (Data.uid d) g (fst s),
       snd s @ [OwnershipGrant (Data.uid d) g,
                EventsLog (groupEvent caller ''group-owner-grant'' g (Some (Data.uid d)))]))"

definition afterRescind ::
  "'w env \<Rightarrow> Caller \<Rightarrow> Data \<Rightarrow> string \<Rightarrow> 'w st \<Rightarrow> (error + unit) \<times> 'w st" where
  "afterRescind E caller d g s =
     (audited E (groups_ownership_rescind E (Data.uid d) g (fst s))
        (groupEvent caller ''group-owner-rescind'' g (Some (Data.uid d))),
      (groups_ownership_rescind E (Data.uid d) g (fst s),
       snd s @ [OwnershipRescind (Data.uid d) g,
                EventsLog (groupEvent caller ''group-owner-rescind'' g (Some (Data.uid d)))]))"


section \<open>A reference implementation of the collaborators\<close>

text \<open>
  Modelled from the spec: the records the Group Directory and the User Directory keep
  (data model of the spec: a group record with its configuration, its slug, its owner set
  and its member set; pending membership requests). The modules themselves are not part of
  this file's sources.
\<close>

record groupRecord =
  config :: GroupDataObject
  groupSlug :: string
  ownerSet :: "jsval list"
  memberSet :: "jsval list"
  pendingSet :: "jsval list"

text \<open>
  Modelled from the spec: what the Permission Oracle and the User Directory know of an
  actor (platform admin, global moderator, capability grants, display name).
\<close>

record account =
  accountId :: int
  displayName :: string
  platformAdmin :: bool
  globalModerator :: bool
  capabilities :: "string list"

text \<open>
  Modelled from the spec: the state of the stores, with the platform setting for private
  groups and whether each sink is out of service.
\<close>

record world =
  groupRecords :: "groupRecord list"
  accounts :: "account list"
  privateGroupsAllowed :: bool
  auditSinkDown :: bool
  notificationSinkDown :: bool

text \<open>Modelled from the spec: identifiers are compared as numbers, as \<open>isSelf\<close> does.\<close>

definition sameId :: "jsval \<Rightarrow> jsval \<Rightarrow> bool" where
  "sameId a b = sameNumber (parseInt a) (parseInt b)"

text \<open>Modelled from the spec: the group record of a name (names are unique keys).\<close>

definition findGroup :: "world \<Rightarrow> string \<Rightarrow> groupRecord option" where
  "findGroup w n = find (\<lambda>r. GroupDataObject.name (config r) = n) (groupRecords w)"

text \<open>Modelled from the spec: the account of an accountId.\<close>

definition findAccount :: "world \<Rightarrow> jsval \<Rightarrow> account option" where
  "findAccount w u =
     (case parseInt u of
        None \<Rightarrow> None
      | Some i \<Rightarrow> find (\<lambda>a. accountId a = i) (accounts w))"

text \<open>Modelled from the spec: a property of an actor's account, false for an unknown actor.\<close>

definition accountHas :: "world \<Rightarrow> jsval \<Rightarrow> (account \<Rightarrow> bool) \<Rightarrow> bool" where
  "accountHas w u p = (case findAccount w u of None \<Rightarrow> False | Some a \<Rightarrow> p a)"

text \<open>Modelled from the spec: a property of a group's record, false for an unknown group.\<close>

definition groupHas :: "world \<Rightarrow> string \<Rightarrow> (groupRecord \<Rightarrow> bool) \<Rightarrow> bool" where
  "groupHas w n p = (case findGroup w n of None \<Rightarrow> False | Some r \<Rightarrow> p r)"

text \<open>Modelled from the spec: an update of the one record that has the name.\<close>

definition changeGroup :: "string \<Rightarrow> (groupRecord \<Rightarrow> groupRecord) \<Rightarrow> world \<Rightarrow> world" where
  "changeGroup n f w =
     w\<lparr> groupRecords :=
          map (\<lambda>r. if GroupDataObject.name (config r) = n then f r else r) (groupRecords w) \<rparr>"

text \<open>
  Modelled from the spec: \<open>GroupDirectory.getConfig\<close>; an unknown name has the
  configuration of a plain public group.
\<close>

definition directoryGetConfig :: "world \<Rightarrow> string \<Rightarrow> GroupDataObject" where
  "directoryGetConfig w n =
     (case findGroup w n of
        Some r \<Rightarrow> config r
      | None \<Rightarrow> \<lparr> GroupDataObject.name = n, GroupDataObject.system = False, private' = False,
                  disableJoinRequests = False, disableLeave = False \<rparr>)"

text \<open>Modelled from the spec: \<open>GroupDirectory.resolveNameFromSlug\<close>.\<close>

definition directoryResolve :: "world \<Rightarrow> string option \<Rightarrow> string option" where
  "directoryResolve w s =
     (case s of
        None \<Rightarrow> None
      | Some sl \<Rightarrow>
          map_option (\<lambda>r. GroupDataObject.name (config r))
            (find (\<lambda>r. groupSlug r = sl) (groupRecords w)))"

text \<open>
  Modelled from the spec: \<open>GroupDirectory.create\<close>. The record is stored under its name with
  the system flag it carries; its owner is the first owner and member; the slug is derived
  from the name.
\<close>

definition directoryCreate :: "(string \<Rightarrow> string) \<Rightarrow> Data \<Rightarrow> world \<Rightarrow> GroupDataObject \<times> world" where
  "directoryCreate slugOf d w =
     (let n = (case Data.name d of None \<Rightarrow> [] | Some n \<Rightarrow> n);
          c = \<lparr> GroupDataObject.name = n, GroupDataObject.system = Data.system d, private' = False,
                disableJoinRequests = False, disableLeave = False \<rparr>;
          r = \<lparr> config = c, groupSlug = slugOf n, ownerSet = [ownerUid d],
                memberSet = [ownerUid d], pendingSet = [] \<rparr>
      in (c, w\<lparr> groupRecords :=
                   r # filter (\<lambda>r. GroupDataObject.name (config r) \<noteq> n) (groupRecords w) \<rparr>))"

text \<open>
  Modelled from the spec: \<open>GroupDirectory.update\<close>, the merge of the fields the payload
  carries: a new name renames the group; the system flag is immutable.
\<close>

definition directoryUpdate :: "string \<Rightarrow> Data \<Rightarrow> world \<Rightarrow> world" where
  "directoryUpdate n d w =
     (case Data.name d of
        None \<Rightarrow> w
      | Some n' \<Rightarrow>
          if n' = [] then w
          else changeGroup n (\<lambda>r. r\<lparr> config := (config r)\<lparr> GroupDataObject.name := n' \<rparr> \<rparr>) w)"

text \<open>Modelled from the spec: \<open>GroupDirectory.destroy\<close>.\<close>

definition directoryDestroy :: "string \<Rightarrow> world \<Rightarrow> world" where
  "directoryDestroy n w =
     w\<lparr> groupRecords := filter (\<lambda>r. GroupDataObject.name (config r) \<noteq> n) (groupRecords w) \<rparr>"

text \<open>Modelled from the spec: \<open>GroupDirectory.join\<close>, \<open>requestMembership\<close> and \<open>leave\<close>.\<close>

definition directoryJoin :: "string \<Rightarrow> jsval \<Rightarrow> world \<Rightarrow> world" where
  "directoryJoin n u w = changeGroup n (\<lambda>r. r\<lparr> memberSet := memberSet r @ [u] \<rparr>) w"

text \<open>Modelled from the spec: a pending membership request is recorded for later approval.\<close>

definition directoryRequestMembership :: "string \<Rightarrow> jsval \<Rightarrow> world \<Rightarrow> world" where
  "directoryRequestMembership n u w = changeGroup n (\<lambda>r. r\<lparr> pendingSet := pendingSet r @ [u] \<rparr>) w"

text \<open>Modelled from the spec: \<open>GroupDirectory.leave\<close> removes the member from the member set.\<close>

definition directoryLeave :: "string \<Rightarrow> jsval \<Rightarrow> world \<Rightarrow> world" where
  "directoryLeave n u w =
     changeGroup n (\<lambda>r. r\<lparr> memberSet := filter (\<lambda>m. \<not> sameId m u) (memberSet r) \<rparr>) w"

text \<open>Modelled from the spec: \<open>OwnershipRelation.grant\<close> and \<open>rescind\<close>.\<close>

definition ownershipGrant :: "jsval \<Rightarrow> string \<Rightarrow> world \<Rightarrow> world" where
  "ownershipGrant u n w = changeGroup n (\<lambda>r. r\<lparr> ownerSet := ownerSet r @ [u] \<rparr>) w"

text \<open>Modelled from the spec: \<open>OwnershipRelation.rescind\<close>.\<close>

definition ownershipRescind :: "jsval \<Rightarrow> string \<Rightarrow> world \<Rightarrow> world" where
  "ownershipRescind u n w =
     changeGroup n (\<lambda>r. r\<lparr> ownerSet := filter (\<lambda>m. \<not> sameId m u) (ownerSet r) \<rparr>) w"

text \<open>
  Modelled from the spec: the collaborators as one environment. The audit sink and the
  notification sink refuse everything while they are out of service. The system groups
  hold \<open>administrators\<close>; \<open>guests\<close> is ephemeral; privilege groups are named \<open>cid:...\<close>.
\<close>

definition reference :: "world env" where
  "reference =
     \<lparr> systemGroups = [''administrators'', ''registered-users''],
       ephemeralGroups = [''guests''],
       groups_isPrivilegeGroup = (\<lambda>n. take 4 n = ''cid:''),
       slugify = (\<lambda>n. n),
       validator_escape = (\<lambda>n. n),
       privileges_admin_can = (\<lambda>w p u. accountHas w u (\<lambda>a. p \<in> set (capabilities a))),
       privileges_global_can = (\<lambda>w p u. accountHas w u (\<lambda>a. p \<in> set (capabilities a))),
       user_isGlobalModerator = (\<lambda>w u. accountHas w u globalModerator),
       user_isAdministrator = (\<lambda>w u. accountHas w u platformAdmin),
       user_exists = (\<lambda>w u. findAccount w u \<noteq> None),
       user_getUserFields =
         (\<lambda>w u fields. case findAccount w u of None \<Rightarrow> [] | Some a \<Rightarrow> displayName a),
       meta_config_allowPrivateGroups = privateGroupsAllowed,
       groups_getGroupNameByGroupSlug = directoryResolve,
       groups_getGroupData = directoryGetConfig,
       groups_ownership_isOwner = (\<lambda>w u n. groupHas w n (\<lambda>r. list_ex (\<lambda>m. sameId m u) (ownerSet r))),
       groups_isMember = (\<lambda>w u n. groupHas w n (\<lambda>r. list_ex (\<lambda>m. sameId m u) (memberSet r))),
       groups_getOwners = (\<lambda>w n. case findGroup w n of None \<Rightarrow> [] | Some r \<Rightarrow> ownerSet r),
       groups_create = directoryCreate (\<lambda>n. n),
       groups_update = directoryUpdate,
       groups_destroy = directoryDestroy,
       groups_join = directoryJoin,
       groups_requestMembership = directoryRequestMembership,
       groups_leave = directoryLeave,
       groups_ownership_grant = ownershipGrant,
       groups_ownership_rescind = ownershipRescind,
       events_log = (\<lambda>w e. if auditSinkDown w then Some ''audit sink unavailable'' else None),
       notifications_create =
         (\<lambda>w n. if notificationSinkDown w then Inl ''notification sink unavailable'' else Inr n),
       notifications_push =
         (\<lambda>w n us. if notificationSinkDown w then Some ''notification sink unavailable'' else None),
       groups_logGroupEvent =
         (\<lambda>w c e g. if auditSinkDown w then Some ''audit sink unavailable'' else None) \<rparr>"

text \<open>
  Modelled from the spec: the groups and actors of the spec's scenarios. Actor 1 is a
  platform administrator and owns \<open>administrators\<close>; actor 5 is a global moderator; actor 7
  owns \<open>book-club\<close>, \<open>team\<close>, \<open>secret\<close> (private, closed to join requests) and \<open>lodge\<close>
  (private); actors 42 and 99 hold no role, and 42 is a member of \<open>team\<close>.
\<close>

definition plainGroup :: "string \<Rightarrow> bool \<Rightarrow> bool \<Rightarrow> bool \<Rightarrow> jsval list \<Rightarrow> jsval list \<Rightarrow> groupRecord" where
  "plainGroup n sys priv noRequests owners members =
     \<lparr> config = \<lparr> GroupDataObject.name = n, GroupDataObject.system = sys, private' = priv,
                  disableJoinRequests = noRequests, disableLeave = False \<rparr>,
       groupSlug = n, ownerSet = owners, memberSet = members, pendingSet = [] \<rparr>"

text \<open>Modelled from the spec: an actor's account.\<close>

definition actor :: "int \<Rightarrow> string \<Rightarrow> bool \<Rightarrow> bool \<Rightarrow> string list \<Rightarrow> account" where
  "actor i n adm gmod caps =
     \<lparr> accountId = i, displayName = n, platformAdmin = adm, globalModerator = gmod,
       capabilities = caps \<rparr>"

text \<open>Modelled from the spec: the stores of the scenarios, private groups allowed.\<close>

definition scenario :: world where
  "scenario =
     \<lparr> groupRecords =
         [plainGroup ''administrators'' True True False [JNum 1] [JNum 1],
          plainGroup ''book-club'' False False False [JNum 7] [JNum 7],
          plainGroup ''team'' False False False [JNum 7] [JNum 7, JNum 42],
          plainGroup ''secret'' False True True [JNum 7] [JNum 7],
          plainGroup ''lodge'' False True False [JNum 7] [JNum 7]],
       accounts =
         [actor 1 ''root'' True False [''admin:groups'', ''group:create''],
          actor 5 ''mod'' False True [],
          actor 7 ''lead'' False False [''group:create''],
          actor 42 ''ann'' False False [''group:create''],
          actor 99 ''bob'' False False []],
       privateGroupsAllowed = True,
       auditSinkDown = False,
       notificationSinkDown = False \<rparr>"

text \<open>Modelled from the spec: the callers and payloads of the scenarios.\<close>

definition actorAt :: "jsval \<Rightarrow> Caller" where
  "actorAt u = \<lparr> Caller.uid = u, Caller.ip = ''192.0.2.1'' \<rparr>"

text \<open>Modelled from the spec: a request naming a group by its slug and a target member.\<close>

definition request :: "string \<Rightarrow> jsval \<Rightarrow> Data" where
  "request s u =
     \<lparr> Data.name = None, ownerUid = JUndefined, Data.system = False, slug = Some s,
       Data.uid = u \<rparr>"

section \<open>Identifiers are compared as numbers\<close>

lemma digit_cases: "0 \<le> k \<Longrightarrow> k < 10 \<Longrightarrow> k \<in> {0, 1, 2, 3, 4, 5, 6, 7, 8, 9::int}"
  by simp presburger

lemma digitChar_props:
  assumes "0 \<le> k" "k < 10"
  shows "isDigit (digitChar k)" and "digitValue (digitChar k) = k"
  using digit_cases [OF assms]
  by (auto simp add: digitChar_def isDigit_def digitValue_def)

lemma digitsValue_snoc: "digitsValue (ds @ [c]) = 10 * digitsValue ds + digitValue c"
  by (simp add: digitsValue_def)

lemma decimalDigits_props:
  "0 \<le> n \<Longrightarrow>
     decimalDigits n \<noteq> [] \<and> list_all isDigit (decimalDigits n)
     \<and> digitsValue (decimalDigits n) = n"
proof (induction n rule: decimalDigits.induct)
  case (1 n)
  show ?case
  proof (cases "n < 10")
    case True
    with "1.prems" show ?thesis
      by (subst (1 2 3) decimalDigits.simps) (simp add: digitChar_props digitsValue_def)
  next
    case False
    with "1" have ih: "decimalDigits (n div 10) \<noteq> []" "list_all isDigit (decimalDigits (n div 10))"
      "digitsValue (decimalDigits (n div 10)) = n div 10"
      by simp_all
    have "0 \<le> n mod 10" "n mod 10 < 10" by simp_all
    with False ih show ?thesis
      by (subst (1 2 3) decimalDigits.simps) (simp add: digitChar_props digitsValue_snoc)
  qed
qed

lemma parseIntString_digits:
  assumes "ds \<noteq> []" "list_all isDigit ds"
  shows "parseIntString ds = Some (roundToDouble (digitsValue ds))"
    and "parseIntString (CHR ''-'' # ds) = Some (- roundToDouble (digitsValue ds))"
proof -
  obtain c r where ds: "ds = c # r" using assms(1) by (cases ds) auto
  with assms(2) have c: "isDigit c" by simp
  then have nw: "\<not> isWhiteSpace c" "c \<noteq> CHR ''-''" "c \<noteq> CHR ''+''"
    by (auto simp add: isDigit_def isWhiteSpace_def)
  have tw: "takeWhile isDigit ds = ds"
    using assms(2) by (simp add: list_all_iff)
  show "parseIntString ds = Some (roundToDouble (digitsValue ds))"
    using nw tw ds by (simp add: parseIntString_def Let_def)
  have "\<not> isWhiteSpace CHR ''-''" by (simp add: isWhiteSpace_def)
  then show "parseIntString (CHR ''-'' # ds) = Some (- roundToDouble (digitsValue ds))"
    using assms(1) by (simp add: parseIntString_def Let_def tw)
qed

text \<open>
  \<open>parseInt\<close> reads a number back, from the number and from its decimal text alike, so
  \<open>isSelf\<close> holds of two identifiers that are numbers exactly when they are the same
  number. Of two texts it may hold although they differ: beyond \<open>2 ^ 53\<close> two neighbouring
  whole numbers are read as the same double.
\<close>

lemma parseInt_JNum: "parseInt (JNum n) = Some (sint n)"
proof -
  have range: "- (2 ^ 53) \<le> sint n" "sint n < 2 ^ 53"
    using sint_ge [of n] sint_lt [of n] by simp_all
  show ?thesis
  proof (cases "sint n < 0")
    case True
    with range have "roundToDouble (- sint n) = - sint n"
      by (simp add: roundToDouble_def)
    with True show ?thesis
      using decimalDigits_props [of "- sint n"]
      by (simp add: parseInt_def numberToString_def parseIntString_digits)
  next
    case False
    with range have "roundToDouble (sint n) = sint n"
      by (simp add: roundToDouble_def)
    with False show ?thesis
      using decimalDigits_props [of "sint n"]
      by (simp add: parseInt_def numberToString_def parseIntString_digits)
  qed
qed

lemma parseInt_decimal_text: "parseInt (JStr (toString (JNum n))) = Some (sint n)"
  using parseInt_JNum [of n] by (simp add: parseInt_def)

lemma isSelf_numbers:
  "sameNumber (parseInt (JNum n)) (parseInt (JNum m)) = (n = m)"
  "sameNumber (parseInt (JNum n)) (parseInt (JStr (toString (JNum m)))) = (n = m)"
  unfolding parseInt_decimal_text parseInt_JNum
  by (auto simp add: sameNumber_def dest: signed_word_eqI)

lemma isSelf_beyond_safe_range:
  "sameNumber (parseInt (JStr ''9007199254740993'')) (parseInt (JStr ''9007199254740992''))"
  by code_simp

lemma lessEqZero_JNum: "lessEqZero (JNum n) = (sint n \<le> 0)"
  by simp

lemma lessEqZero_texts:
  "lessEqZero (JStr ''0.0'')" "lessEqZero (JStr ''0x0'')" "lessEqZero (JStr ''-1.5'')"
  "lessEqZero (JStr '''')" "lessEqZero (JStr ''-Infinity'')" "lessEqZero (JStr ''1e-400'')"
  "\<not> lessEqZero (JStr ''42'')" "\<not> lessEqZero (JStr ''0x1F'')" "\<not> lessEqZero (JStr ''1e-300'')"
  "\<not> lessEqZero (JStr ''abc'')" "\<not> lessEqZero (JStr ''Infinity'')" "\<not> lessEqZero (JStr ''1_000'')"
  by code_simp+

section \<open>Running the operations\<close>

lemmas io_defs = await_def query_def mutate_def emit_def throw_def done'_def

lemma isOwner_None: "isOwner E caller None s = (Inl InvalidGroupName, s)"
  by (simp add: isOwner_def throw_def)

lemma isOwner_Some:
  "isOwner E caller (Some g) (w, tr) =
     (if accessGranted E w caller g then (Inr (), (w, tr)) else (Inl NoPrivileges, (w, tr)))"
  by (simp add: isOwner_def accessGranted_def io_defs)

lemma logGroupEvent_run:
  "logGroupEvent E caller ev g t (w, tr) =
     (audited E w (groupEvent caller ev g t), (w, tr @ [EventsLog (groupEvent caller ev g t)]))"
  by (simp add: logGroupEvent_def emit_def audited_def)

lemma join_run:
  assumes "joinValidated E w caller d g"
  shows "join E caller (Some d) (w, tr) =
     (case joinDecisionTable
             (sameNumber (parseInt (Caller.uid caller)) (parseInt (Data.uid d)))
             (user_isAdministrator E w (Caller.uid caller))
             (groups_ownership_isOwner E w (Caller.uid caller) g)
             (private' (groups_getGroupData E w g))
             (disableJoinRequests (groups_getGroupData E w g))
             (meta_config_allowPrivateGroups E w) of
        DirectJoin \<Rightarrow>
          directJoin E d g (groupEvent caller ''group-join'' g (Some (Data.uid d))) (w, tr)
      | PendingRequest \<Rightarrow>
          pendingRequest E caller g
            (groupEvent caller ''group-request-membership'' g (Some (Data.uid d))) (w, tr)
      | NoOp \<Rightarrow> (Inr (), (w, tr))
      | Denial e \<Rightarrow> (Inl e, (w, tr)))"
  using assms
  by (auto simp add: join_def joinValidated_def joinDecisionTable_def directJoin_def
        pendingRequest_def io_defs logGroupEvent_run Let_def)

lemma join_rejected:
  assumes "\<not> (\<exists>d g. data = Some d \<and> joinValidated E w caller d g)"
  shows "\<exists>e. raisedHere e \<and> join E caller data (w, tr) = (Inl e, (w, tr))"
  using assms
  by (auto simp add: join_def joinValidated_def io_defs split: option.splits)

lemma leave_early:
  assumes "\<not> (\<exists>d g. data = Some d \<and> leaveGuardsPass E w caller d g)"
  shows "\<exists>e. raisedHere e \<and> leave E caller data (w, tr) = (Inl e, (w, tr))"
  using assms
  by (auto simp add: leave_def leaveGuardsPass_def io_defs Let_def split: option.splits)

lemma leave_run:
  assumes "leaveGuardsPass E w caller d g"
  shows "leave E caller (Some d) (w, tr) =
     (if \<not> user_exists E w (Data.uid d) then (Inl InvalidUid, (w, tr))
      else if \<not> groups_isMember E w (Data.uid d) g then (Inr (), (w, tr))
      else if disableLeave (groups_getGroupData E w g)
              \<and> sameNumber (parseInt (Caller.uid caller)) (parseInt (Data.uid d))
        then (Inl GroupLeaveDisabled, (w, tr))
      else if sameNumber (parseInt (Caller.uid caller)) (parseInt (Data.uid d))
              \<or> user_isAdministrator E w (Caller.uid caller)
              \<or> groups_ownership_isOwner E w (Caller.uid caller) g
        then afterLeave E d g (groupEvent caller ''group-leave'' g (Some (Data.uid d))) (w, tr)
      else (Inl NoPrivileges, (w, tr)))"
  using assms
  by (auto simp add: leave_def leaveGuardsPass_def afterLeave_def io_defs logGroupEvent_run
        Let_def thrown_def refusal_def split: sum.splits option.splits)

lemma grant_run:
  "grant E caller (Some d) (w, tr) =
     (case groups_getGroupNameByGroupSlug E w (Data.slug d) of
        None \<Rightarrow> (Inl InvalidGroupName, (w, tr))
      | Some g \<Rightarrow>
          if accessGranted E w caller g then afterGrant E caller d g (w, tr)
          else (Inl NoPrivileges, (w, tr)))"
  by (simp add: grant_def afterGrant_def io_defs isOwner_None isOwner_Some
        logGroupEvent_run split: option.splits)

lemma rescind_run:
  "rescind E caller (Some d) (w, tr) =
     (case groups_getGroupNameByGroupSlug E w (Data.slug d) of
        None \<Rightarrow> (Inl InvalidGroupName, (w, tr))
      | Some g \<Rightarrow>
          if accessGranted E w caller g then afterRescind E caller d g (w, tr)
          else (Inl NoPrivileges, (w, tr)))"
  by (simp add: rescind_def afterRescind_def io_defs isOwner_None isOwner_Some
        logGroupEvent_run split: option.splits)

lemma delete_run:
  "delete' E caller (Some d) (w, tr) =
     (case groups_getGroupNameByGroupSlug E w (Data.slug d) of
        None \<Rightarrow> (Inl InvalidGroupName, (w, tr))
      | Some g \<Rightarrow>
          if \<not> accessGranted E w caller g then (Inl NoPrivileges, (w, tr))
          else if g \<in> set (systemGroups E) \<or> g \<in> set (ephemeralGroups E)
            then (Inl NotAllowed, (w, tr))
          else (audited E (groups_destroy E g w) (groupEvent caller ''group-delete'' g None),
                (groups_destroy E g w,
                 tr @ [GroupsDestroy g, EventsLog (groupEvent caller ''group-delete'' g None)])))"
  by (simp add: delete'_def io_defs isOwner_None isOwner_Some logGroupEvent_run
        split: option.splits)

lemma update_run:
  "update E caller (Some d) (w, tr) =
     (case groups_getGroupNameByGroupSlug E w (Data.slug d) of
        None \<Rightarrow> (Inl InvalidGroupName, (w, tr))
      | Some g \<Rightarrow>
          if \<not> accessGranted E w caller g then (Inl NoPrivileges, (w, tr))
          else (Inr (groups_getGroupData E (groups_update E g (d\<lparr> slug := None \<rparr>) w)
                       (case Data.name d of None \<Rightarrow> g | Some n \<Rightarrow> if n \<noteq> [] then n else g)),
                (groups_update E g (d\<lparr> slug := None \<rparr>) w,
                 tr @ [GroupsUpdate g (d\<lparr> slug := None \<rparr>)])))"
  by (simp add: update_def io_defs isOwner_None isOwner_Some Let_def split: option.splits)

lemma create_run:
  "create E caller data (w, tr) =
     (if \<not> truthy (Caller.uid caller) then (Inl NoPrivileges, (w, tr))
      else case data of
        None \<Rightarrow> (Inl InvalidData, (w, tr))
      | Some d \<Rightarrow>
         (case Data.name d of
            None \<Rightarrow> (Inl InvalidGroupName, (w, tr))
          | Some n \<Rightarrow>
              if groups_isPrivilegeGroup E n then (Inl InvalidGroupName, (w, tr))
              else if \<not> privileges_global_can E w ''group:create'' (Caller.uid caller)
                then (Inl NoPrivileges, (w, tr))
              else
                (case audited E
                        (snd (groups_create E (d\<lparr> ownerUid := Caller.uid caller, Data.system := False \<rparr>) w))
                        (groupEvent caller ''group-create'' n None) of
                   Inl e \<Rightarrow> Inl e
                 | Inr u \<Rightarrow>
                     Inr (fst (groups_create E
                                 (d\<lparr> ownerUid := Caller.uid caller, Data.system := False \<rparr>) w)),
                 (snd (groups_create E (d\<lparr> ownerUid := Caller.uid caller, Data.system := False \<rparr>) w),
                  tr @ [GroupsCreate (d\<lparr> ownerUid := Caller.uid caller, Data.system := False \<rparr>),
                        EventsLog (groupEvent caller ''group-create'' n None)]))))"
  by (simp add: create_def io_defs logGroupEvent_run Let_def split: option.splits prod.splits sum.splits)

lemma create'_run:
  "create' E caller data (w, tr) =
     (if \<not> truthy (Caller.uid caller) then (Inl NoPrivileges, (w, tr))
      else case data of
        None \<Rightarrow> (Inl InvalidData, (w, tr))
      | Some d \<Rightarrow>
         (case Data.name d of
            None \<Rightarrow> (Inl InvalidGroupName, (w, tr))
          | Some n \<Rightarrow>
              if groups_isPrivilegeGroup E n then (Inl InvalidGroupName, (w, tr))
              else if \<not> privileges_global_can E w ''group:create'' (Caller.uid caller)
                then (Inl NoPrivileges, (w, tr))
              else
                (Inr (fst (groups_create E
                             (d\<lparr> ownerUid := Caller.uid caller, Data.system := False \<rparr>) w)),
                 (snd (groups_create E (d\<lparr> ownerUid := Caller.uid caller, Data.system := False \<rparr>) w),
                  tr @ [GroupsCreate (d\<lparr> ownerUid := Caller.uid caller, Data.system := False \<rparr>),
                        GroupsLogGroupEvent caller ''group-create'' n]))))"
  by (simp add: create'_def io_defs unawaited_def Let_def
        split: option.splits prod.splits sum.splits)

section \<open>Fail-fast, single mutation, and the escalation of sink failures\<close>

lemmas observe_defs =
  failFastOnce_def sinkFailureEscalates_def failedTyped_def succeeded_def untouched_def
  mutatedOnce_def newCalls_def lastRefusal_def audited_def thrown_def refusal_def

lemma rejected_observed:
  assumes "raisedHere e"
  shows "failFastOnce False (w, tr) ((Inl e, (w, tr)) :: (error + 'a) \<times> 'w st)"
    and "sinkFailureEscalates E (w, tr) ((Inl e, (w, tr)) :: (error + 'a) \<times> 'w st)"
  using assms by (cases e; simp add: observe_defs)+

lemma create_observed:
  "failFastOnce False (w, tr) (create E caller data (w, tr))"
  "sinkFailureEscalates E (w, tr) (create E caller data (w, tr))"
  by (auto simp add: create_run observe_defs split: option.splits sum.splits)

lemma update_observed:
  "failFastOnce False (w, tr) (update E caller data (w, tr))"
  "sinkFailureEscalates E (w, tr) (update E caller data (w, tr))"
proof -
  show "failFastOnce False (w, tr) (update E caller data (w, tr))"
  proof (cases data)
    case None
    then show ?thesis by (simp add: update_def throw_def observe_defs)
  next
    case (Some d)
    then show ?thesis by (auto simp add: update_run observe_defs split: option.splits)
  qed
  show "sinkFailureEscalates E (w, tr) (update E caller data (w, tr))"
  proof (cases data)
    case None
    then show ?thesis by (simp add: update_def throw_def observe_defs)
  next
    case (Some d)
    then show ?thesis by (auto simp add: update_run observe_defs split: option.splits)
  qed
qed

lemma delete_observed:
  "failFastOnce False (w, tr) (delete' E caller data (w, tr))"
  "sinkFailureEscalates E (w, tr) (delete' E caller data (w, tr))"
proof -
  show "failFastOnce False (w, tr) (delete' E caller data (w, tr))"
  proof (cases data)
    case None
    then show ?thesis by (simp add: delete'_def throw_def observe_defs)
  next
    case (Some d)
    then show ?thesis by (auto simp add: delete_run observe_defs split: option.splits)
  qed
  show "sinkFailureEscalates E (w, tr) (delete' E caller data (w, tr))"
  proof (cases data)
    case None
    then show ?thesis by (simp add: delete'_def throw_def observe_defs)
  next
    case (Some d)
    then show ?thesis by (auto simp add: delete_run observe_defs split: option.splits)
  qed
qed

lemma grant_observed:
  "failFastOnce False (w, tr) (grant E caller data (w, tr))"
  "sinkFailureEscalates E (w, tr) (grant E caller data (w, tr))"
proof -
  show "failFastOnce False (w, tr) (grant E caller data (w, tr))"
  proof (cases data)
    case None
    then show ?thesis by (simp add: grant_def throw_def observe_defs)
  next
    case (Some d)
    then show ?thesis
      by (auto simp add: grant_run afterGrant_def observe_defs split: option.splits)
  qed
  show "sinkFailureEscalates E (w, tr) (grant E caller data (w, tr))"
  proof (cases data)
    case None
    then show ?thesis by (simp add: grant_def throw_def observe_defs)
  next
    case (Some d)
    then show ?thesis
      by (auto simp add: grant_run afterGrant_def observe_defs split: option.splits)
  qed
qed

lemma rescind_observed:
  "failFastOnce False (w, tr) (rescind E caller data (w, tr))"
  "sinkFailureEscalates E (w, tr) (rescind E caller data (w, tr))"
proof -
  show "failFastOnce False (w, tr) (rescind E caller data (w, tr))"
  proof (cases data)
    case None
    then show ?thesis by (simp add: rescind_def throw_def observe_defs)
  next
    case (Some d)
    then show ?thesis
      by (auto simp add: rescind_run afterRescind_def observe_defs split: option.splits)
  qed
  show "sinkFailureEscalates E (w, tr) (rescind E caller data (w, tr))"
  proof (cases data)
    case None
    then show ?thesis by (simp add: rescind_def throw_def observe_defs)
  next
    case (Some d)
    then show ?thesis
      by (auto simp add: rescind_run afterRescind_def observe_defs split: option.splits)
  qed
qed

lemma joinIsNoOp_validated:
  assumes "joinValidated E w caller d g"
  shows "joinIsNoOp E w caller (Some d) =
           (joinDecisionTable
              (sameNumber (parseInt (Caller.uid caller)) (parseInt (Data.uid d)))
              (user_isAdministrator E w (Caller.uid caller))
              (groups_ownership_isOwner E w (Caller.uid caller) g)
              (private' (groups_getGroupData E w g))
              (disableJoinRequests (groups_getGroupData E w g))
              (meta_config_allowPrivateGroups E w) = NoOp)"
  using assms by (simp add: joinIsNoOp_def joinValidated_def)

lemma joinIsNoOp_rejected:
  assumes "\<not> (\<exists>d g. data = Some d \<and> joinValidated E w caller d g)"
  shows "\<not> joinIsNoOp E w caller data"
  using assms by (auto simp add: joinIsNoOp_def split: option.splits)

lemma join_observed:
  "failFastOnce (joinIsNoOp E w caller data) (w, tr) (join E caller data (w, tr))"
  "sinkFailureEscalates E (w, tr) (join E caller data (w, tr))"
proof -
  have "failFastOnce (joinIsNoOp E w caller data) (w, tr) (join E caller data (w, tr))
        \<and> sinkFailureEscalates E (w, tr) (join E caller data (w, tr))"
  proof (cases "\<exists>d g. data = Some d \<and> joinValidated E w caller d g")
    case True
    then obtain d g where valid: "data = Some d" "joinValidated E w caller d g"
      by blast
    show ?thesis
      unfolding valid(1) join_run [OF valid(2)] joinIsNoOp_validated [OF valid(2)]
      by (cases "joinDecisionTable
                   (sameNumber (parseInt (Caller.uid caller)) (parseInt (Data.uid d)))
                   (user_isAdministrator E w (Caller.uid caller))
                   (groups_ownership_isOwner E w (Caller.uid caller) g)
                   (private' (groups_getGroupData E w g))
                   (disableJoinRequests (groups_getGroupData E w g))
                   (meta_config_allowPrivateGroups E w)")
         (auto simp add: directJoin_def pendingRequest_def observe_defs joinDecisionTable_def
            Let_def split: option.splits if_splits)
  next
    case False
    from join_rejected [OF False, of tr] obtain e
      where "raisedHere e" "join E caller data (w, tr) = (Inl e, (w, tr))"
      by blast
    with joinIsNoOp_rejected [OF False] show ?thesis
      by (simp add: rejected_observed)
  qed
  then show "failFastOnce (joinIsNoOp E w caller data) (w, tr) (join E caller data (w, tr))"
    and "sinkFailureEscalates E (w, tr) (join E caller data (w, tr))"
    by simp_all
qed

lemma afterLeave_observed:
  "failFastOnce False (w, tr) (afterLeave E d g entry (w, tr))"
  "sinkFailureEscalates E (w, tr) (afterLeave E d g entry (w, tr))"
  by (auto simp add: afterLeave_def observe_defs Let_def split: sum.splits option.splits)

lemma leaveIsNoOp_passed:
  assumes "leaveGuardsPass E w caller d g"
  shows "leaveIsNoOp E w caller (Some d) =
           (user_exists E w (Data.uid d) \<and> \<not> groups_isMember E w (Data.uid d) g)"
  using assms by (simp add: leaveIsNoOp_def leaveGuardsPass_def)

lemma leaveIsNoOp_early:
  assumes "\<not> (\<exists>d g. data = Some d \<and> leaveGuardsPass E w caller d g)"
  shows "\<not> leaveIsNoOp E w caller data"
  using assms by (auto simp add: leaveIsNoOp_def split: option.splits)

lemma leave_observed:
  "failFastOnce (leaveIsNoOp E w caller data) (w, tr) (leave E caller data (w, tr))"
  "sinkFailureEscalates E (w, tr) (leave E caller data (w, tr))"
proof -
  have "failFastOnce (leaveIsNoOp E w caller data) (w, tr) (leave E caller data (w, tr))
        \<and> sinkFailureEscalates E (w, tr) (leave E caller data (w, tr))"
  proof (cases "\<exists>d g. data = Some d \<and> leaveGuardsPass E w caller d g")
    case True
    then obtain d g where pass: "data = Some d" "leaveGuardsPass E w caller d g"
      by blast
    have noop: "failFastOnce True (w, tr) ((Inr (), (w, tr)) :: (error + unit) \<times> 'a st)"
      "sinkFailureEscalates E (w, tr) ((Inr (), (w, tr)) :: (error + unit) \<times> 'a st)"
      by (simp_all add: observe_defs)
    show ?thesis
      unfolding pass(1) leave_run [OF pass(2)] leaveIsNoOp_passed [OF pass(2)]
      by (simp add: rejected_observed afterLeave_observed noop)
  next
    case False
    from leave_early [OF False, of tr] obtain e
      where "raisedHere e" "leave E caller data (w, tr) = (Inl e, (w, tr))"
      by blast
    with leaveIsNoOp_early [OF False] show ?thesis
      by (simp add: rejected_observed)
  qed
  then show "failFastOnce (leaveIsNoOp E w caller data) (w, tr) (leave E caller data (w, tr))"
    and "sinkFailureEscalates E (w, tr) (leave E caller data (w, tr))"
    by simp_all
qed

section \<open>Leaving twice\<close>







text \<open>
  The test \<open>caller.uid <= 0\<close> converts a string to a number first: a caller whose
  identifier is the text \<open>-1.5\<close>, \<open>0x0\<close> or \<open>0.0\<close> is turned away with invalid-uid by
  join and by leave, before anything else is looked at.
\<close>

lemma nonpositive_texts_rejected:
  "join reference (actorAt (JStr ''-1.5'')) (Some (request ''team'' (JNum 42))) (scenario, [])
     = (Inl InvalidUid, (scenario, []))"
  "leave reference (actorAt (JStr ''0x0'')) (Some (request ''team'' (JNum 99))) (scenario, [])
     = (Inl InvalidUid, (scenario, []))"
  "leave reference (actorAt (JStr ''0.0'')) (Some (request ''administrators'' (JStr ''0.0'')))
       (scenario, [])
     = (Inl InvalidUid, (scenario, []))"
  by code_simp+

section \<open>The \<open>isOwner\<close> gate\<close>

text \<open>
  Claim C1. For every caller and every group name that is a string, the gate grants
  access exactly when the caller is a recorded owner of the group, or holds the
  admin-groups capability, or is a global moderator and the group is not a system group;
  otherwise it throws no-privileges. A group name that is not a string throws
  invalid-group-name. The gate writes nothing.
\<close>

theorem isOwner_gate:
  "isOwner E caller (Some g) (w, tr) =
     (if groups_ownership_isOwner E w (Caller.uid caller) g
         \<or> privileges_admin_can E w ''admin:groups'' (Caller.uid caller)
         \<or> (user_isGlobalModerator E w (Caller.uid caller)
             \<and> \<not> GroupDataObject.system (groups_getGroupData E w g))
      then (Inr (), (w, tr))
      else (Inl NoPrivileges, (w, tr)))
   \<and> isOwner E caller None (w, tr) = (Inl InvalidGroupName, (w, tr))"
  by (simp add: isOwner_Some isOwner_None accessGranted_def)

text \<open>
  In the scenario: the owner 7 and the global moderator 5 pass the gate of \<open>team\<close>; the
  global moderator does not pass the gate of the system group \<open>administrators\<close>; actor 42
  passes neither.
\<close>

theorem isOwner_gate_witness:
  "fst (isOwner reference (actorAt (JNum 7)) (Some ''team'') (scenario, [])) = Inr ()
   \<and> fst (isOwner reference (actorAt (JNum 5)) (Some ''team'') (scenario, [])) = Inr ()
   \<and> isOwner reference (actorAt (JNum 5)) (Some ''administrators'') (scenario, [])
       = (Inl NoPrivileges, (scenario, []))
   \<and> isOwner reference (actorAt (JNum 42)) (Some ''team'') (scenario, [])
       = (Inl NoPrivileges, (scenario, []))
   \<and> isOwner reference (actorAt (JNum 42)) None (scenario, [])
       = (Inl InvalidGroupName, (scenario, []))"
proof -
  have owner7:
    "groups_ownership_isOwner reference scenario (Caller.uid (actorAt (JNum 7))) ''team''"
    by code_simp
  have mod5:
    "user_isGlobalModerator reference scenario (Caller.uid (actorAt (JNum 5)))
     \<and> \<not> GroupDataObject.system (groups_getGroupData reference scenario ''team'')"
    by code_simp
  have not5:
    "\<not> (groups_ownership_isOwner reference scenario (Caller.uid (actorAt (JNum 5)))
            ''administrators''
         \<or> privileges_admin_can reference scenario ''admin:groups''
              (Caller.uid (actorAt (JNum 5)))
         \<or> (user_isGlobalModerator reference scenario (Caller.uid (actorAt (JNum 5)))
             \<and> \<not> GroupDataObject.system
                   (groups_getGroupData reference scenario ''administrators'')))"
    by code_simp
  have not42:
    "\<not> (groups_ownership_isOwner reference scenario (Caller.uid (actorAt (JNum 42))) ''team''
         \<or> privileges_admin_can reference scenario ''admin:groups''
              (Caller.uid (actorAt (JNum 42)))
         \<or> (user_isGlobalModerator reference scenario (Caller.uid (actorAt (JNum 42)))
             \<and> \<not> GroupDataObject.system (groups_getGroupData reference scenario ''team'')))"
    by code_simp
  show ?thesis
    using owner7 mod5 not5 not42
      isOwner_gate [of reference "actorAt (JNum 7)" "''team''" scenario "[]"]
      isOwner_gate [of reference "actorAt (JNum 5)" "''team''" scenario "[]"]
      isOwner_gate [of reference "actorAt (JNum 5)" "''administrators''" scenario "[]"]
      isOwner_gate [of reference "actorAt (JNum 42)" "''team''" scenario "[]"]
    by simp
qed

section \<open>The decision table of join\<close>

text \<open>
  Claim C2. After its validation steps pass, join evaluates the five-rule decision table
  top-down, first match wins, and the table is total: for every combination of isSelf,
  caller-is-platform-admin, caller-is-group-owner, the group's private flag, its
  disableJoinRequests flag and the platform's allowPrivateGroups setting, the run is the
  one outcome the table names, and it shows as exactly that outcome: a direct join with
  its group-join audit record, a pending membership request with its
  group-request-membership audit record, a silent no-op, or a denial.
\<close>

theorem join_decision_table:
  assumes "joinValidated E w caller d g"
  shows "join E caller (Some d) (w, tr) =
           (case joinDecisionTable
                   (sameNumber (parseInt (Caller.uid caller)) (parseInt (Data.uid d)))
                   (user_isAdministrator E w (Caller.uid caller))
                   (groups_ownership_isOwner E w (Caller.uid caller) g)
                   (private' (groups_getGroupData E w g))
                   (disableJoinRequests (groups_getGroupData E w g))
                   (meta_config_allowPrivateGroups E w) of
              DirectJoin \<Rightarrow>
                directJoin E d g
                  \<lparr> event.type' = ''group-join'', event.uid = Caller.uid caller,
                    event.ip = Caller.ip caller, groupName' = g,
                    targetUid = Some (Data.uid d) \<rparr> (w, tr)
            | PendingRequest \<Rightarrow>
                pendingRequest E caller g
                  \<lparr> event.type' = ''group-request-membership'',
                    event.uid = Caller.uid caller, event.ip = Caller.ip caller,
                    groupName' = g, targetUid = Some (Data.uid d) \<rparr> (w, tr)
            | NoOp \<Rightarrow> (Inr (), (w, tr))
            | Denial e \<Rightarrow> (Inl e, (w, tr)))
         \<and> joinObserved (w, tr) (join E caller (Some d) (w, tr)) =
             Some (joinDecisionTable
                   (sameNumber (parseInt (Caller.uid caller)) (parseInt (Data.uid d)))
                   (user_isAdministrator E w (Caller.uid caller))
                   (groups_ownership_isOwner E w (Caller.uid caller) g)
                   (private' (groups_getGroupData E w g))
                   (disableJoinRequests (groups_getGroupData E w g))
                   (meta_config_allowPrivateGroups E w))"
proof -
  let ?out = "joinDecisionTable
                   (sameNumber (parseInt (Caller.uid caller)) (parseInt (Data.uid d)))
                   (user_isAdministrator E w (Caller.uid caller))
                   (groups_ownership_isOwner E w (Caller.uid caller) g)
                   (private' (groups_getGroupData E w g))
                   (disableJoinRequests (groups_getGroupData E w g))
                   (meta_config_allowPrivateGroups E w)"
  have run: "join E caller (Some d) (w, tr) =
           (case ?out of
              DirectJoin \<Rightarrow>
                directJoin E d g
                  \<lparr> event.type' = ''group-join'', event.uid = Caller.uid caller,
                    event.ip = Caller.ip caller, groupName' = g,
                    targetUid = Some (Data.uid d) \<rparr> (w, tr)
            | PendingRequest \<Rightarrow>
                pendingRequest E caller g
                  \<lparr> event.type' = ''group-request-membership'',
                    event.uid = Caller.uid caller, event.ip = Caller.ip caller,
                    groupName' = g, targetUid = Some (Data.uid d) \<rparr> (w, tr)
            | NoOp \<Rightarrow> (Inr (), (w, tr))
            | Denial e \<Rightarrow> (Inl e, (w, tr)))"
    using assms by (simp add: join_run groupEvent_def split: joinOutcome.splits)
  have seen: "joinObserved (w, tr) (join E caller (Some d) (w, tr)) = Some ?out"
    unfolding run
    by (cases ?out)
       (simp_all add: joinObserved_def directJoin_def pendingRequest_def)
  from run seen show ?thesis by simp
qed

text \<open>
  The four outcomes in the scenario. Actor 42 joins the public \<open>book-club\<close> directly; the
  same actor is denied by \<open>secret\<close>, which is private with join requests disabled, and
  gets a pending request at \<open>lodge\<close>, which is private; when actor 42 joins actor 99 to
  \<open>lodge\<close>, nothing happens.
\<close>

theorem join_decision_table_witness:
  "joinValidated reference scenario (actorAt (JNum 42)) (request ''book-club'' (JNum 42))
     ''book-club''
   \<and> join reference (actorAt (JNum 42)) (Some (request ''book-club'' (JNum 42))) (scenario, [])
       = directJoin reference (request ''book-club'' (JNum 42)) ''book-club''
           \<lparr> event.type' = ''group-join'', event.uid = JNum 42, event.ip = ''192.0.2.1'',
             groupName' = ''book-club'', targetUid = Some (JNum 42) \<rparr> (scenario, [])
   \<and> joinValidated reference scenario (actorAt (JNum 42)) (request ''secret'' (JNum 42))
       ''secret''
   \<and> join reference (actorAt (JNum 42)) (Some (request ''secret'' (JNum 42))) (scenario, [])
       = (Inl GroupJoinDisabled, (scenario, []))
   \<and> joinValidated reference scenario (actorAt (JNum 42)) (request ''lodge'' (JNum 42))
       ''lodge''
   \<and> join reference (actorAt (JNum 42)) (Some (request ''lodge'' (JNum 42))) (scenario, [])
       = pendingRequest reference (actorAt (JNum 42)) ''lodge''
           \<lparr> event.type' = ''group-request-membership'', event.uid = JNum 42,
             event.ip = ''192.0.2.1'', groupName' = ''lodge'',
             targetUid = Some (JNum 42) \<rparr> (scenario, [])
   \<and> joinValidated reference scenario (actorAt (JNum 42)) (request ''lodge'' (JNum 99))
       ''lodge''
   \<and> join reference (actorAt (JNum 42)) (Some (request ''lodge'' (JNum 99))) (scenario, [])
       = (Inr (), (scenario, []))"
proof -
  let ?table = "\<lambda>g u. joinDecisionTable
              (sameNumber (parseInt (Caller.uid (actorAt (JNum 42))))
                 (parseInt (Data.uid (request g u))))
              (user_isAdministrator reference scenario (Caller.uid (actorAt (JNum 42))))
              (groups_ownership_isOwner reference scenario (Caller.uid (actorAt (JNum 42))) g)
              (private' (groups_getGroupData reference scenario g))
              (disableJoinRequests (groups_getGroupData reference scenario g))
              (meta_config_allowPrivateGroups reference scenario)"
  have v1: "joinValidated reference scenario (actorAt (JNum 42))
              (request ''book-club'' (JNum 42)) ''book-club''"
    by code_simp
  have v2: "joinValidated reference scenario (actorAt (JNum 42))
              (request ''secret'' (JNum 42)) ''secret''"
    by code_simp
  have v3: "joinValidated reference scenario (actorAt (JNum 42))
              (request ''lodge'' (JNum 42)) ''lodge''"
    by code_simp
  have v4: "joinValidated reference scenario (actorAt (JNum 42))
              (request ''lodge'' (JNum 99)) ''lodge''"
    by code_simp
  have t1: "?table ''book-club'' (JNum 42) = DirectJoin"
    by code_simp
  have t2: "?table ''secret'' (JNum 42) = Denial GroupJoinDisabled"
    by code_simp
  have t3: "?table ''lodge'' (JNum 42) = PendingRequest"
    by code_simp
  have t4: "?table ''lodge'' (JNum 99) = NoOp"
    by code_simp
  have r1: "join reference (actorAt (JNum 42)) (Some (request ''book-club'' (JNum 42)))
              (scenario, [])
            = directJoin reference (request ''book-club'' (JNum 42)) ''book-club''
                \<lparr> event.type' = ''group-join'', event.uid = JNum 42,
                  event.ip = ''192.0.2.1'', groupName' = ''book-club'',
                  targetUid = Some (JNum 42) \<rparr> (scenario, [])"
    using join_decision_table [OF v1, of "[]"] unfolding t1
    by (simp add: actorAt_def request_def)
  have r2: "join reference (actorAt (JNum 42)) (Some (request ''secret'' (JNum 42)))
              (scenario, [])
            = (Inl GroupJoinDisabled, (scenario, []))"
    using join_decision_table [OF v2, of "[]"] unfolding t2 by simp
  have r3: "join reference (actorAt (JNum 42)) (Some (request ''lodge'' (JNum 42)))
              (scenario, [])
            = pendingRequest reference (actorAt (JNum 42)) ''lodge''
                \<lparr> event.type' = ''group-request-membership'', event.uid = JNum 42,
                  event.ip = ''192.0.2.1'', groupName' = ''lodge'',
                  targetUid = Some (JNum 42) \<rparr> (scenario, [])"
    using join_decision_table [OF v3, of "[]"] unfolding t3
    by (simp add: actorAt_def request_def)
  have r4: "join reference (actorAt (JNum 42)) (Some (request ''lodge'' (JNum 99)))
              (scenario, [])
            = (Inr (), (scenario, []))"
    using join_decision_table [OF v4, of "[]"] unfolding t4 by simp
  from v1 r1 v2 r2 v3 r3 v4 r4 show ?thesis
    by (intro conjI)
qed

section \<open>Join when the platform has no private groups\<close>

text \<open>
  Claim C3, as stated, fails: the validation steps come first. With private groups
  disabled, actor 42, who is no administrator, joins the system group \<open>administrators\<close>
  on themself and is refused with not-allowed; nobody is joined.
\<close>

theorem join_override_counterexample:
  "\<not> meta_config_allowPrivateGroups reference (scenario\<lparr> privateGroupsAllowed := False \<rparr>)
   \<and> sameNumber (parseInt (Caller.uid (actorAt (JNum 42))))
       (parseInt (Data.uid (request ''administrators'' (JNum 42))))
   \<and> join reference (actorAt (JNum 42)) (Some (request ''administrators'' (JNum 42)))
       (scenario\<lparr> privateGroupsAllowed := False \<rparr>, [])
     = (Inl NotAllowed, (scenario\<lparr> privateGroupsAllowed := False \<rparr>, []))"
  by code_simp

text \<open>
  Claim C3, amended. In join, once the validation steps have passed, when the platform
  configuration disables private groups and the caller acts on themself, a direct join is
  performed and the call ends there, whatever the group's private flag, its
  disableJoinRequests flag, and the caller's administrator and owner standing are: the
  target is made a member of the group, and the audit sink is handed the record of type
  \<open>group-join\<close> that carries the caller's identifier and address, the group's name and
  the target's identifier; what the audit sink answers is the result of the call.
\<close>

theorem join_override:
  assumes "joinValidated E w caller d g"
    and "\<not> meta_config_allowPrivateGroups E w"
    and "sameNumber (parseInt (Caller.uid caller)) (parseInt (Data.uid d))"
  shows "join E caller (Some d) (w, tr) =
           (thrown (refusal (events_log E (groups_join E g (Data.uid d) w)
                      \<lparr> event.type' = ''group-join'', event.uid = Caller.uid caller,
                        event.ip = Caller.ip caller, groupName' = g,
                        targetUid = Some (Data.uid d) \<rparr>)),
            (groups_join E g (Data.uid d) w,
             tr @ [GroupsJoin g (Data.uid d),
                   EventsLog \<lparr> event.type' = ''group-join'', event.uid = Caller.uid caller,
                               event.ip = Caller.ip caller, groupName' = g,
                               targetUid = Some (Data.uid d) \<rparr>]))"
  using assms
  by (simp add: join_run joinDecisionTable_def directJoin_def audited_def groupEvent_def)

text \<open>
  With private groups disabled, actor 42 joins \<open>secret\<close>, private and closed to join
  requests, directly: the call succeeds, actor 42 is a member afterwards, and the calls
  made are the join and the audit record.
\<close>

theorem join_override_witness:
  "joinValidated reference (scenario\<lparr> privateGroupsAllowed := False \<rparr>) (actorAt (JNum 42))
     (request ''secret'' (JNum 42)) ''secret''
   \<and> \<not> meta_config_allowPrivateGroups reference (scenario\<lparr> privateGroupsAllowed := False \<rparr>)
   \<and> sameNumber (parseInt (Caller.uid (actorAt (JNum 42))))
       (parseInt (Data.uid (request ''secret'' (JNum 42))))
   \<and> fst (join reference (actorAt (JNum 42)) (Some (request ''secret'' (JNum 42)))
            (scenario\<lparr> privateGroupsAllowed := False \<rparr>, [])) = Inr ()
   \<and> groups_isMember reference
       (fst (snd (join reference (actorAt (JNum 42)) (Some (request ''secret'' (JNum 42)))
                    (scenario\<lparr> privateGroupsAllowed := False \<rparr>, []))))
       (JNum 42) ''secret''
   \<and> snd (snd (join reference (actorAt (JNum 42)) (Some (request ''secret'' (JNum 42)))
                 (scenario\<lparr> privateGroupsAllowed := False \<rparr>, [])))
     = [GroupsJoin ''secret'' (JNum 42),
        EventsLog \<lparr> event.type' = ''group-join'', event.uid = JNum 42,
                    event.ip = ''192.0.2.1'', groupName' = ''secret'',
                    targetUid = Some (JNum 42) \<rparr>]"
proof -
  have v: "joinValidated reference (scenario\<lparr> privateGroupsAllowed := False \<rparr>)
             (actorAt (JNum 42)) (request ''secret'' (JNum 42)) ''secret''"
    by code_simp
  have p: "\<not> meta_config_allowPrivateGroups reference
               (scenario\<lparr> privateGroupsAllowed := False \<rparr>)"
    by code_simp
  have s: "sameNumber (parseInt (Caller.uid (actorAt (JNum 42))))
             (parseInt (Data.uid (request ''secret'' (JNum 42))))"
    by code_simp
  have answer: "thrown (refusal (events_log reference
                   (groups_join reference ''secret'' (Data.uid (request ''secret'' (JNum 42)))
                      (scenario\<lparr> privateGroupsAllowed := False \<rparr>))
                   \<lparr> event.type' = ''group-join'', event.uid = Caller.uid (actorAt (JNum 42)),
                     event.ip = Caller.ip (actorAt (JNum 42)), groupName' = ''secret'',
                     targetUid = Some (Data.uid (request ''secret'' (JNum 42))) \<rparr>))
                = Inr ()"
    by code_simp
  have member: "groups_isMember reference
                  (groups_join reference ''secret'' (Data.uid (request ''secret'' (JNum 42)))
                     (scenario\<lparr> privateGroupsAllowed := False \<rparr>))
                  (JNum 42) ''secret''"
    by code_simp
  show ?thesis
    using v p s answer member join_override [OF v p s, of "[]"]
    by (simp add: actorAt_def request_def)
qed

section \<open>Deleting a system or ephemeral group\<close>

text \<open>
  Claim C4, as stated, fails: the \<open>isOwner\<close> gate comes first. Actor 42, who holds no
  role, deletes \<open>administrators\<close> and is refused with no-privileges, not with not-allowed.
\<close>

theorem delete_system_group_counterexample:
  "groups_getGroupNameByGroupSlug reference scenario
       (Data.slug (request ''administrators'' JUndefined)) = Some ''administrators''
   \<and> ''administrators'' \<in> set (systemGroups reference)
   \<and> delete' reference (actorAt (JNum 42)) (Some (request ''administrators'' JUndefined))
       (scenario, [])
     = (Inl NoPrivileges, (scenario, []))"
  by code_simp

text \<open>
  Claim C4, amended. For every caller, delete on a group whose resolved name is in the
  system-group set or the ephemeral-group set fails and the group is not destroyed: with
  no-privileges when the caller does not pass the \<open>isOwner\<close> gate, and with not-allowed
  when the caller passes it, whatever lets them pass (ownership, the admin capability or
  global moderation); in particular, delete on \<open>administrators\<close>, a system group, fails
  not-allowed for that group's owner.
\<close>

theorem delete_system_group:
  assumes "groups_getGroupNameByGroupSlug E w (Data.slug d) = Some g"
    and "g \<in> set (systemGroups E) \<or> g \<in> set (ephemeralGroups E)"
  shows "delete' E caller (Some d) (w, tr) =
           (if groups_ownership_isOwner E w (Caller.uid caller) g
               \<or> privileges_admin_can E w ''admin:groups'' (Caller.uid caller)
               \<or> (user_isGlobalModerator E w (Caller.uid caller)
                   \<and> \<not> GroupDataObject.system (groups_getGroupData E w g))
            then (Inl NotAllowed, (w, tr))
            else (Inl NoPrivileges, (w, tr)))"
  using assms by (simp add: delete_run accessGranted_def)

text \<open>Actor 1 owns \<open>administrators\<close> and is refused with not-allowed.\<close>

theorem delete_system_group_witness:
  "groups_getGroupNameByGroupSlug reference scenario
       (Data.slug (request ''administrators'' JUndefined)) = Some ''administrators''
   \<and> ''administrators'' \<in> set (systemGroups reference)
   \<and> groups_ownership_isOwner reference scenario (Caller.uid (actorAt (JNum 1)))
       ''administrators''
   \<and> delete' reference (actorAt (JNum 1)) (Some (request ''administrators'' JUndefined))
       (scenario, [])
     = (Inl NotAllowed, (scenario, []))"
proof -
  have r: "groups_getGroupNameByGroupSlug reference scenario
             (Data.slug (request ''administrators'' JUndefined)) = Some ''administrators''"
    by code_simp
  have m: "''administrators'' \<in> set (systemGroups reference)"
    by code_simp
  have m': "''administrators'' \<in> set (systemGroups reference)
            \<or> ''administrators'' \<in> set (ephemeralGroups reference)"
    using m by simp
  have o: "groups_ownership_isOwner reference scenario (Caller.uid (actorAt (JNum 1)))
             ''administrators''"
    by code_simp
  show ?thesis
    using r m o delete_system_group [OF r m', of "actorAt (JNum 1)" "[]"] by simp
qed

section \<open>Fail-fast and the single mutation\<close>

text \<open>
  Claim C5, as stated, fails: a successful call need not mutate. In the scenario of the
  specification, the owner 7 removes actor 99, who is no member of \<open>team\<close>: leave succeeds
  and performs no mutation; and actor 42, who holds no role, joins actor 99 to \<open>team\<close>:
  join succeeds and performs no mutation.
\<close>

theorem single_mutation_counterexample:
  "succeeded (leave reference (actorAt (JNum 7)) (Some (request ''team'' (JNum 99)))
                (scenario, []))
   \<and> \<not> mutatedOnce (scenario, [])
         (leave reference (actorAt (JNum 7)) (Some (request ''team'' (JNum 99))) (scenario, []))
   \<and> succeeded (join reference (actorAt (JNum 42)) (Some (request ''team'' (JNum 99)))
                  (scenario, []))
   \<and> \<not> mutatedOnce (scenario, [])
         (join reference (actorAt (JNum 42)) (Some (request ''team'' (JNum 99))) (scenario, []))"
  by code_simp

text \<open>
  Claim C5, amended. For every operation among create, update, delete, join, leave, grant
  and rescind: a call that fails with a typed error has mutated nothing and has handed
  nothing to a sink; a successful call has performed exactly one mutation, except in the
  two silent no-ops, which succeed and perform none: a join that passes its validation
  and falls to rule 5 of the decision table, and a leave that passes its guards for a
  target that exists and is no member of the group.
\<close>

theorem fail_fast_single_mutation:
  "failFastOnce False (w, tr) (create E caller data (w, tr))
   \<and> failFastOnce False (w, tr) (update E caller data (w, tr))
   \<and> failFastOnce False (w, tr) (delete' E caller data (w, tr))
   \<and> failFastOnce (joinIsNoOp E w caller data) (w, tr) (join E caller data (w, tr))
   \<and> failFastOnce (leaveIsNoOp E w caller data) (w, tr) (leave E caller data (w, tr))
   \<and> failFastOnce False (w, tr) (grant E caller data (w, tr))
   \<and> failFastOnce False (w, tr) (rescind E caller data (w, tr))"
  by (simp add: create_observed update_observed delete_observed join_observed leave_observed
        grant_observed rescind_observed)

text \<open>
  In the scenario: actor 42 joins \<open>book-club\<close>, which is no silent no-op and succeeds with
  one mutation; actor 42 deletes \<open>team\<close>, which fails with no-privileges and touches
  nothing; the owner 7 removes actor 99, no member of \<open>team\<close>, which is a silent no-op,
  succeeds and touches nothing.
\<close>

theorem fail_fast_single_mutation_witness:
  "succeeded (join reference (actorAt (JNum 42)) (Some (request ''book-club'' (JNum 42)))
                (scenario, []))
   \<and> \<not> joinIsNoOp reference scenario (actorAt (JNum 42))
         (Some (request ''book-club'' (JNum 42)))
   \<and> mutatedOnce (scenario, [])
       (join reference (actorAt (JNum 42)) (Some (request ''book-club'' (JNum 42)))
          (scenario, []))
   \<and> failedTyped (delete' reference (actorAt (JNum 42)) (Some (request ''team'' JUndefined))
                    (scenario, []))
   \<and> untouched (scenario, [])
       (delete' reference (actorAt (JNum 42)) (Some (request ''team'' JUndefined))
          (scenario, []))
   \<and> leaveIsNoOp reference scenario (actorAt (JNum 7)) (Some (request ''team'' (JNum 99)))
   \<and> succeeded (leave reference (actorAt (JNum 7)) (Some (request ''team'' (JNum 99)))
                  (scenario, []))
   \<and> untouched (scenario, [])
       (leave reference (actorAt (JNum 7)) (Some (request ''team'' (JNum 99)))
          (scenario, []))"
proof -
  have ok: "succeeded (join reference (actorAt (JNum 42))
                         (Some (request ''book-club'' (JNum 42))) (scenario, []))"
    by code_simp
  have rule: "\<not> joinIsNoOp reference scenario (actorAt (JNum 42))
                  (Some (request ''book-club'' (JNum 42)))"
    by code_simp
  have failed: "failedTyped (delete' reference (actorAt (JNum 42))
                               (Some (request ''team'' JUndefined)) (scenario, []))"
    by code_simp
  have silent: "leaveIsNoOp reference scenario (actorAt (JNum 7))
                  (Some (request ''team'' (JNum 99)))"
    by code_simp
  show ?thesis
    using ok rule failed silent
      fail_fast_single_mutation [of scenario "[]" reference "actorAt (JNum 42)"
        "Some (request ''book-club'' (JNum 42))"]
      fail_fast_single_mutation [of scenario "[]" reference "actorAt (JNum 42)"
        "Some (request ''team'' JUndefined)"]
      fail_fast_single_mutation [of scenario "[]" reference "actorAt (JNum 7)"
        "Some (request ''team'' (JNum 99))"]
    by (simp add: failFastOnce_def)
qed

section \<open>Leaving \<open>administrators\<close> on oneself\<close>

text \<open>
  Claim C6, as stated, fails: the test of the caller's identifier comes first. A caller
  whose identifier is 0 acts on themself (both identifiers parse to 0) and leaves
  \<open>administrators\<close>: the call fails with invalid-uid, not with cant-remove-self-as-admin.
\<close>

theorem leave_administrators_counterexample:
  "sameNumber (parseInt (Caller.uid (actorAt (JNum 0))))
       (parseInt (Data.uid (request ''administrators'' (JNum 0))))
   \<and> groups_getGroupNameByGroupSlug reference scenario
         (Data.slug (request ''administrators'' (JNum 0))) = Some ''administrators''
   \<and> leave reference (actorAt (JNum 0)) (Some (request ''administrators'' (JNum 0)))
         (scenario, [])
       = (Inl InvalidUid, (scenario, []))"
  by code_simp

text \<open>
  Claim C6, amended. For every caller whose identifier is positive (\<open>caller.uid <= 0\<close> is
  false) and who acts on themself (isSelf by numeric comparison), leave on the group
  named \<open>administrators\<close> fails with cant-remove-self-as-admin and changes nothing,
  regardless of the caller's admin status and of the group's remaining member count:
  neither is read before the failure.
\<close>

theorem leave_administrators_self:
  assumes "\<not> lessEqZero (Caller.uid caller)"
    and "sameNumber (parseInt (Caller.uid caller)) (parseInt (Data.uid d))"
    and "groups_getGroupNameByGroupSlug E w (Data.slug d) = Some ''administrators''"
  shows "leave E caller (Some d) (w, tr) = (Inl CantRemoveSelfAsAdmin, (w, tr))"
  using assms by (simp add: leave_def io_defs)

text \<open>
  Actor 1, a platform administrator and the only member of \<open>administrators\<close>, cannot
  leave it; the payload names the target as the string \<open>"1"\<close>.
\<close>

theorem leave_administrators_self_witness:
  "\<not> lessEqZero (Caller.uid (actorAt (JNum 1)))
   \<and> sameNumber (parseInt (Caller.uid (actorAt (JNum 1))))
       (parseInt (Data.uid (request ''administrators'' (JStr ''1''))))
   \<and> groups_getGroupNameByGroupSlug reference scenario
       (Data.slug (request ''administrators'' (JStr ''1''))) = Some ''administrators''
   \<and> user_isAdministrator reference scenario (Caller.uid (actorAt (JNum 1)))
   \<and> leave reference (actorAt (JNum 1)) (Some (request ''administrators'' (JStr ''1'')))
       (scenario, [])
     = (Inl CantRemoveSelfAsAdmin, (scenario, []))"
proof -
  have p: "\<not> lessEqZero (Caller.uid (actorAt (JNum 1)))"
    by code_simp
  have s: "sameNumber (parseInt (Caller.uid (actorAt (JNum 1))))
             (parseInt (Data.uid (request ''administrators'' (JStr ''1''))))"
    by code_simp
  have r: "groups_getGroupNameByGroupSlug reference scenario
             (Data.slug (request ''administrators'' (JStr ''1''))) = Some ''administrators''"
    by code_simp
  have a: "user_isAdministrator reference scenario (Caller.uid (actorAt (JNum 1)))"
    by code_simp
  show ?thesis
    using p s r a leave_administrators_self [OF p s r, of "[]"] by simp
qed

section \<open>Leave is idempotent\<close>




section \<open>What create forces\<close>

text \<open>
  Claim C8. For every successful create call, the group record handed to the directory
  has system = false and ownerUid equal to the caller's identifier, whatever the payload
  said, and a group-create audit record is emitted: the audit sink is handed the record
  of type \<open>group-create\<close> with the caller's identifier and address and the group's name,
  and no target. The call returns what the directory returned. The create of
  \<open>src/api/groups.ts\<close> forces the same payload, and hands the caller, the tag
  \<open>group-create\<close> and the group's name to the \<open>logGroupEvent\<close> it imports. In the
  directory modelled from the specification, a subsequent lookup of the group returns the
  forced values: the group is no system group and its owner set is the caller.
\<close>

theorem create_forces_owner_and_system:
  "(create E caller data (w, tr) = (Inr created, (w', tr'))
    \<longrightarrow> (case data of
           None \<Rightarrow> False
         | Some d \<Rightarrow>
            (case Data.name d of
               None \<Rightarrow> False
             | Some n \<Rightarrow>
                 Data.system (d\<lparr> ownerUid := Caller.uid caller, Data.system := False \<rparr>) = False
                 \<and> ownerUid (d\<lparr> ownerUid := Caller.uid caller, Data.system := False \<rparr>)
                     = Caller.uid caller
                 \<and> (created, w')
                     = groups_create E (d\<lparr> ownerUid := Caller.uid caller, Data.system := False \<rparr>) w
                 \<and> tr' = tr @ [GroupsCreate (d\<lparr> ownerUid := Caller.uid caller,
                                                 Data.system := False \<rparr>),
                                EventsLog \<lparr> event.type' = ''group-create'',
                                            event.uid = Caller.uid caller,
                                            event.ip = Caller.ip caller, groupName' = n,
                                            targetUid = None \<rparr>])))
   \<and> (create' E caller data (w, tr) = (Inr created', (w'', tr''))
    \<longrightarrow> (case data of
           None \<Rightarrow> False
         | Some d \<Rightarrow>
            (case Data.name d of
               None \<Rightarrow> False
             | Some n \<Rightarrow>
                 (created', w'')
                     = groups_create E (d\<lparr> ownerUid := Caller.uid caller, Data.system := False \<rparr>) w
                 \<and> tr'' = tr @ [GroupsCreate (d\<lparr> ownerUid := Caller.uid caller,
                                                  Data.system := False \<rparr>),
                                 GroupsLogGroupEvent caller ''group-create'' n])))
   \<and> (create reference caller data (ws, tr) = (Inr made, (ws', trs'))
    \<longrightarrow> (case data of
           None \<Rightarrow> False
         | Some d \<Rightarrow>
            (case Data.name d of
               None \<Rightarrow> False
             | Some n \<Rightarrow>
                 GroupDataObject.system made = False
                 \<and> GroupDataObject.system (groups_getGroupData reference ws' n) = False
                 \<and> groups_getOwners reference ws' n = [Caller.uid caller])))"
proof (intro conjI impI)
  assume "create E caller data (w, tr) = (Inr created, (w', tr'))"
  then show "case data of
           None \<Rightarrow> False
         | Some d \<Rightarrow>
            (case Data.name d of
               None \<Rightarrow> False
             | Some n \<Rightarrow>
                 Data.system (d\<lparr> ownerUid := Caller.uid caller, Data.system := False \<rparr>) = False
                 \<and> ownerUid (d\<lparr> ownerUid := Caller.uid caller, Data.system := False \<rparr>)
                     = Caller.uid caller
                 \<and> (created, w')
                     = groups_create E (d\<lparr> ownerUid := Caller.uid caller, Data.system := False \<rparr>) w
                 \<and> tr' = tr @ [GroupsCreate (d\<lparr> ownerUid := Caller.uid caller,
                                                 Data.system := False \<rparr>),
                                EventsLog \<lparr> event.type' = ''group-create'',
                                            event.uid = Caller.uid caller,
                                            event.ip = Caller.ip caller, groupName' = n,
                                            targetUid = None \<rparr>])"
    by (auto simp add: create_run groupEvent_def split: option.splits if_splits sum.splits)
next
  assume "create' E caller data (w, tr) = (Inr created', (w'', tr''))"
  then show "case data of
           None \<Rightarrow> False
         | Some d \<Rightarrow>
            (case Data.name d of
               None \<Rightarrow> False
             | Some n \<Rightarrow>
                 (created', w'')
                     = groups_create E (d\<lparr> ownerUid := Caller.uid caller, Data.system := False \<rparr>) w
                 \<and> tr'' = tr @ [GroupsCreate (d\<lparr> ownerUid := Caller.uid caller,
                                                  Data.system := False \<rparr>),
                                 GroupsLogGroupEvent caller ''group-create'' n])"
    by (auto simp add: create'_run split: option.splits if_splits sum.splits)
next
  assume "create reference caller data (ws, tr) = (Inr made, (ws', trs'))"
  then show "case data of
           None \<Rightarrow> False
         | Some d \<Rightarrow>
            (case Data.name d of
               None \<Rightarrow> False
             | Some n \<Rightarrow>
                 GroupDataObject.system made = False
                 \<and> GroupDataObject.system (groups_getGroupData reference ws' n) = False
                 \<and> groups_getOwners reference ws' n = [Caller.uid caller])"
    by (auto simp add: create_run split: option.splits if_splits sum.splits)
       (auto simp add: reference_def directoryCreate_def directoryGetConfig_def findGroup_def
          Let_def)
qed

text \<open>
  Actor 42 creates \<open>chess\<close> with a payload that asks for a system group owned by actor 1:
  the directory is handed a group that is no system group and that actor 42 owns, the
  audit sink is handed the \<open>group-create\<close> record, and a lookup afterwards shows the
  forced values. The create of \<open>src/api/groups.ts\<close> makes the same group.
\<close>

theorem create_forces_owner_and_system_witness:
  "fst (create reference (actorAt (JNum 42))
          (Some \<lparr> Data.name = Some ''chess'', ownerUid = JNum 1, Data.system = True,
                  slug = None, Data.uid = JUndefined \<rparr>) (scenario, []))
     = Inr \<lparr> GroupDataObject.name = ''chess'', GroupDataObject.system = False, private' = False,
             disableJoinRequests = False, disableLeave = False \<rparr>
   \<and> snd (snd (create reference (actorAt (JNum 42))
                 (Some \<lparr> Data.name = Some ''chess'', ownerUid = JNum 1, Data.system = True,
                         slug = None, Data.uid = JUndefined \<rparr>) (scenario, [])))
     = [GroupsCreate \<lparr> Data.name = Some ''chess'', ownerUid = JNum 42, Data.system = False,
                       slug = None, Data.uid = JUndefined \<rparr>,
        EventsLog \<lparr> event.type' = ''group-create'', event.uid = JNum 42,
                    event.ip = ''192.0.2.1'', groupName' = ''chess'', targetUid = None \<rparr>]
   \<and> snd (snd (create' reference (actorAt (JNum 42))
                 (Some \<lparr> Data.name = Some ''chess'', ownerUid = JNum 1, Data.system = True,
                         slug = None, Data.uid = JUndefined \<rparr>) (scenario, [])))
     = [GroupsCreate \<lparr> Data.name = Some ''chess'', ownerUid = JNum 42, Data.system = False,
                       slug = None, Data.uid = JUndefined \<rparr>,
        GroupsLogGroupEvent (actorAt (JNum 42)) ''group-create'' ''chess'']
   \<and> GroupDataObject.system
       (groups_getGroupData reference
          (fst (snd (create reference (actorAt (JNum 42))
                       (Some \<lparr> Data.name = Some ''chess'', ownerUid = JNum 1,
                               Data.system = True, slug = None, Data.uid = JUndefined \<rparr>)
                       (scenario, []))))
          ''chess'') = False
   \<and> groups_getOwners reference
       (fst (snd (create reference (actorAt (JNum 42))
                    (Some \<lparr> Data.name = Some ''chess'', ownerUid = JNum 1,
                            Data.system = True, slug = None, Data.uid = JUndefined \<rparr>)
                    (scenario, []))))
       ''chess'' = [Caller.uid (actorAt (JNum 42))]"
proof -
  let ?payload = "\<lparr> Data.name = Some ''chess'', ownerUid = JNum 1, Data.system = True,
                    slug = None, Data.uid = JUndefined \<rparr>"
  let ?made = "\<lparr> GroupDataObject.name = ''chess'', GroupDataObject.system = False,
                 private' = False, disableJoinRequests = False, disableLeave = False \<rparr>"
  obtain ws' trs' where run:
    "create reference (actorAt (JNum 42)) (Some ?payload) (scenario, [])
     = (fst (create reference (actorAt (JNum 42)) (Some ?payload) (scenario, [])), (ws', trs'))"
    by (metis prod.collapse)
  obtain ws'' trs'' where run':
    "create' reference (actorAt (JNum 42)) (Some ?payload) (scenario, [])
     = (fst (create' reference (actorAt (JNum 42)) (Some ?payload) (scenario, [])),
        (ws'', trs''))"
    by (metis prod.collapse)
  have ok: "fst (create reference (actorAt (JNum 42)) (Some ?payload) (scenario, []))
            = Inr ?made"
    by code_simp
  have ok': "fst (create' reference (actorAt (JNum 42)) (Some ?payload) (scenario, []))
             = Inr ?made"
    by code_simp
  from create_forces_owner_and_system
         [where E = reference and caller = "actorAt (JNum 42)" and data = "Some ?payload"
            and w = scenario and ws = scenario and tr = "[]"
            and w' = ws' and tr' = trs' and created = ?made
            and w'' = ws'' and tr'' = trs'' and created' = ?made
            and ws' = ws' and trs' = trs' and made = ?made]
       run run' ok ok'
  show ?thesis by (simp add: actorAt_def)
qed

section \<open>Failures of the sinks\<close>




section \<open>Grant and rescind do not validate the target\<close>



end
